theory Spec2Isabelle
  imports Complex_Main
begin

section \<open>Values of the host language\<close>

text \<open>
  The animation code is JavaScript. Its numbers are modelled as exact reals: rounding
  (also the 32-bit rounding of the particle buffer), NaN and the infinities of IEEE
  doubles are not followed. Where the code would compute one of these, the model says so:
  an arithmetic operand that is \<open>undefined\<close>, and a pointer coordinate divided by a
  window size of zero, end the modelled run with \<open>NotANumber\<close>; a comparison with
  \<open>undefined\<close> is false, as in JavaScript; and the camera aspect ratio keeps its
  division by zero.
  An option value is a number or a boolean; a property read yields a \<open>jsval option\<close>,
  where \<open>None\<close> is JavaScript's \<open>undefined\<close> (the key is absent).
\<close>

datatype jsval = Num real | Bool bool

type_synonym jsobject = "string \<rightharpoonup> jsval"

datatype error = TypeError | SyntaxError | ContextError | NotFoundError | NotANumber

text \<open>ToBoolean: \<open>undefined\<close>, \<open>0\<close> and \<open>false\<close> are falsy.\<close>

fun truthy :: "jsval option \<Rightarrow> bool" where
  "truthy None = False"
| "truthy (Some (Num r)) = (r \<noteq> 0)"
| "truthy (Some (Bool b)) = b"

text \<open>\<open>a || d\<close> with a default \<open>d\<close> that is a value.\<close>

definition js_or :: "jsval option \<Rightarrow> jsval \<Rightarrow> jsval" where
  "js_or a d = (case a of None \<Rightarrow> d | Some v \<Rightarrow> if truthy a then v else d)"

text \<open>ToNumber, as the arithmetic operators apply it to an operand.\<close>

fun to_number :: "jsval option \<Rightarrow> error + real" where
  "to_number None = Inl NotANumber"
| "to_number (Some (Num r)) = Inr r"
| "to_number (Some (Bool b)) = Inr (if b then 1 else 0)"

text \<open>
  The number of rounds of \<open>for (let i = 0; i < c; i++)\<close>: the naturals below \<open>c\<close>.
\<close>

definition loop_count :: "real \<Rightarrow> nat" where
  "loop_count c = nat \<lceil>c\<rceil>"

text \<open>
  \<open>clientWidth / clientHeight\<close>: both are non-negative integers of the DOM, and the
  division is not guarded against a zero height.
\<close>

datatype ratio = Ratio real | Infinity | NaN

definition js_div :: "nat \<Rightarrow> nat \<Rightarrow> ratio" where
  "js_div w h = (if h = 0 then (if w = 0 then NaN else Infinity) else Ratio (real w / real h))"

section \<open>The host: document, window and rendering context\<close>

text \<open>
  DOM elements are identified by naturals. A function value is either an arrow function
  created at run time (a fresh object, identified by the id it was given, with the
  name of the instance function it calls) or a function found on the class prototype.
  \<open>random\<close> and \<open>clock\<close> are the successive results of \<open>Math.random()\<close> and
  \<open>Date.now()\<close>; \<open>webgl\<close> tells whether a WebGL context can be created.
\<close>

datatype callback = Arrow nat string | Proto string

record host =
  querySelector :: "string \<Rightarrow> error + nat option"
  clientWidth :: "nat \<Rightarrow> nat"
  clientHeight :: "nat \<Rightarrow> nat"
  childNodes :: "nat \<Rightarrow> nat list"
  listeners :: "(string \<times> callback) list"
  frameRequests :: "callback list"
  devicePixelRatio :: real
  innerWidth :: nat
  innerHeight :: nat
  webgl :: bool
  nextId :: nat
  random :: "nat \<Rightarrow> real"
  randomCalls :: nat
  clock :: "nat \<Rightarrow> real"
  clockCalls :: nat

definition addEventListener :: "string \<Rightarrow> callback \<Rightarrow> host \<Rightarrow> host" where
  "addEventListener ty f h =
     (if (ty, f) \<in> set (listeners h) then h else h\<lparr>listeners := listeners h @ [(ty, f)]\<rparr>)"

definition removeEventListener :: "string \<Rightarrow> callback \<Rightarrow> host \<Rightarrow> host" where
  "removeEventListener ty f h = h\<lparr>listeners := filter (\<lambda>l. l \<noteq> (ty, f)) (listeners h)\<rparr>"

text \<open>\<open>window.addEventListener(ty, (e) => this.m(e))\<close>: the arrow function is a new object.\<close>

definition listen :: "string \<Rightarrow> string \<Rightarrow> host \<Rightarrow> host" where
  "listen ty m h = (addEventListener ty (Arrow (nextId h) m) h)\<lparr>nextId := Suc (nextId h)\<rparr>"

text \<open>\<open>requestAnimationFrame(() => this.animate())\<close>.\<close>

definition requestAnimationFrame :: "host \<Rightarrow> host" where
  "requestAnimationFrame h =
     h\<lparr>frameRequests := frameRequests h @ [Arrow (nextId h) ''animate''], nextId := Suc (nextId h)\<rparr>"

text \<open>The result of the \<open>k\<close>-th next call of \<open>Math.random()\<close>, and the host after \<open>n\<close> calls.\<close>

definition rnd :: "host \<Rightarrow> nat \<Rightarrow> real" where
  "rnd h k = random h (randomCalls h + k)"

definition drawn_randoms :: "nat \<Rightarrow> host \<Rightarrow> host" where
  "drawn_randoms n h = h\<lparr>randomCalls := randomCalls h + n\<rparr>"

definition now :: "host \<Rightarrow> nat \<Rightarrow> real" where
  "now h k = clock h (clockCalls h + k)"

definition read_clock :: "nat \<Rightarrow> host \<Rightarrow> host" where
  "read_clock n h = h\<lparr>clockCalls := clockCalls h + n\<rparr>"

section \<open>Scene graph\<close>

record vec3 =
  vx :: real
  vy :: real
  vz :: real

definition Vector3 :: "real \<Rightarrow> real \<Rightarrow> real \<Rightarrow> vec3" where
  "Vector3 a b c = \<lparr>vx = a, vy = b, vz = c\<rparr>"

definition distanceTo :: "vec3 \<Rightarrow> vec3 \<Rightarrow> real" where
  "distanceTo p q = sqrt ((vx p - vx q)\<^sup>2 + (vy p - vy q)\<^sup>2 + (vz p - vz q)\<^sup>2)"

datatype geometry =
    IcosahedronGeometry real nat
  | SphereGeometry real nat nat
  | BoxGeometry real real real
  | TorusGeometry real real nat nat
  | TorusKnotGeometry real real nat nat
  | CylinderGeometry real real real nat nat bool
  | CircleGeometry real nat
  | RingGeometry real real nat
  | BufferGeometry "vec3 list"

datatype material_class = MeshBasicMaterial | LineBasicMaterial | PointsMaterial

record material =
  material_class :: material_class
  color :: "jsval option"
  wireframe :: "jsval option"
  transparent :: bool
  opacity :: real
  point_size :: real

text \<open>A material with the library's defaults for what the code leaves out.\<close>

definition basic_material :: "material_class \<Rightarrow> jsval option \<Rightarrow> material" where
  "basic_material k c =
     \<lparr>material_class = k, color = c, wireframe = Some (Bool False), transparent = False,
      opacity = 1, point_size = 1\<rparr>"

record object3d =
  geometry :: geometry
  material :: material
  position :: vec3
  rotation :: vec3
  scale :: real

text \<open>\<open>new THREE.Mesh(g, m)\<close> (also \<open>Line\<close> and \<open>Points\<close>): at the origin, unrotated, unscaled.\<close>

definition Mesh :: "geometry \<Rightarrow> material \<Rightarrow> object3d" where
  "Mesh g m = \<lparr>geometry = g, material = m, position = Vector3 0 0 0,
               rotation = Vector3 0 0 0, scale = 1\<rparr>"

record node = object3d +
  velocity :: vec3

record cube = object3d +
  rotationSpeed_x :: real
  rotationSpeed_y :: real
  floatOffset :: real

text \<open>
  What each effect keeps besides camera and renderer: the objects it added to its scene
  and the counters its per-frame update reads.
\<close>

datatype scene =
    SphereScene (sphere: object3d) (innerSphere: object3d)
  | NetworkScene (nodes: "node list") (nodeGroup_rotation_y: real) (lineMaterial: material)
      (lineGroup: "object3d list") (lineGroup_rotation_y: real)
  | CubeScene (cubes: "cube list") (centerCube: object3d) (scene_rotation_y: real)
  | KnotScene (mesh: object3d)
  | ParticleScene (particles: object3d) (box: object3d)
  | MachineryScene (gear1: object3d) (gear2: object3d) (line: object3d)
      (pulseScale: real) (pulseDirection: real)
  | DocumentScene (doc_nodes: "object3d list") (doc_lines: "object3d list")
  | HelixScene (helixPoints1: "object3d list") (helixPoints2: "object3d list")
      (rungs: "object3d list") (rotationOffset: real)
  | ShieldScene (hexagons: "object3d list") (outerRing: object3d)
  | PipelineScene (pipe: object3d) (flowParticles: "object3d list") (nodeStart: object3d)
      (nodeEnd: object3d)

record camera =
  fov :: real
  aspect :: ratio
  near :: real
  far :: real
  camera_z :: real

record renderer =
  domElement :: nat
  antialias :: bool
  alpha :: bool
  width :: nat
  height :: nat
  pixelRatio :: real
  disposed :: bool
  drawn :: "(scene \<times> camera) list"

section \<open>Effect objects\<close>

text \<open>
  The four stand-alone classes, and the six subclasses of \<open>ProjectAnimation\<close>, which
  share its constructor, \<open>init\<close>, \<open>onResize\<close>, \<open>onMouseMove\<close> and \<open>animate\<close>.
\<close>

datatype project =
    ParticleField | MachineryMesh | DocumentNodes | DNAHelix | ShieldBarrier | FlowPipeline

datatype effect =
    AnimatedSphere | NeuralNetwork | DataCube | GeometricAnimation | ProjectAnimation project

text \<open>
  An animation is the JavaScript object \<open>this\<close>. \<open>stage\<close> holds what \<open>init\<close> creates
  (camera, renderer, scene objects) and is \<open>None\<close> before \<open>init\<close> has run. Fields a
  constructor does not reach keep the blank values below; the JavaScript object lacks them.
\<close>

record animation =
  effect :: effect
  container :: "nat option"
  options :: jsobject
  mouse :: "real \<times> real"
  targetRotation :: "real \<times> real"
  stage :: "(camera \<times> renderer \<times> scene) option"

definition blank :: "effect \<Rightarrow> animation" where
  "blank e = \<lparr>effect = e, container = None, options = Map.empty, mouse = (0, 0),
              targetRotation = (0, 0), stage = None\<rparr>"

section \<open>Construction\<close>

text \<open>
  The first argument of every constructor: a selector string, an element, or \<open>null\<close>.
  \<open>document.querySelector\<close> throws on a malformed selector and yields \<open>null\<close> when
  nothing matches.
\<close>

datatype target = Selector string | Element nat | Null

fun resolve :: "host \<Rightarrow> target \<Rightarrow> error + nat option" where
  "resolve h (Selector s) = querySelector h s"
| "resolve h (Element el) = Inr (Some el)"
| "resolve h Null = Inr None"

text \<open>
  \<open>this.options = { key: options.key || default, ..., ...options }\<close>, one equation per
  constructor; the six project animations inherit the constructor of
  \<open>ProjectAnimation\<close>. Later keys of an object literal override earlier ones.
\<close>

fun this_options :: "effect \<Rightarrow> jsobject \<Rightarrow> jsobject" where
  "this_options AnimatedSphere opts =
     [''color'' \<mapsto> js_or (opts ''color'') (Num 0x1a1a1a),
      ''wireframe'' \<mapsto> Bool (opts ''wireframe'' \<noteq> Some (Bool False)),
      ''segments'' \<mapsto> js_or (opts ''segments'') (Num 32),
      ''radius'' \<mapsto> js_or (opts ''radius'') (Num 1.5),
      ''rotationSpeed'' \<mapsto> js_or (opts ''rotationSpeed'') (Num 0.001),
      ''mouseInfluence'' \<mapsto> js_or (opts ''mouseInfluence'') (Num 0.1)] ++ opts"
| "this_options NeuralNetwork opts =
     [''nodeCount'' \<mapsto> js_or (opts ''nodeCount'') (Num 50),
      ''connectionDistance'' \<mapsto> js_or (opts ''connectionDistance'') (Num 2),
      ''nodeColor'' \<mapsto> js_or (opts ''nodeColor'') (Num 0x4f46e5),
      ''lineColor'' \<mapsto> js_or (opts ''lineColor'') (Num 0x8b5cf6),
      ''rotationSpeed'' \<mapsto> js_or (opts ''rotationSpeed'') (Num 0.0005)] ++ opts"
| "this_options DataCube opts =
     [''cubeCount'' \<mapsto> js_or (opts ''cubeCount'') (Num 6),
      ''cubeColor'' \<mapsto> js_or (opts ''cubeColor'') (Num 0x4f46e5),
      ''rotationSpeed'' \<mapsto> js_or (opts ''rotationSpeed'') (Num 0.005)] ++ opts"
| "this_options GeometricAnimation opts =
     [''color'' \<mapsto> js_or (opts ''color'') (Num 0x4f46e5),
      ''size'' \<mapsto> js_or (opts ''size'') (Num 1.5),
      ''mouseInfluence'' \<mapsto> js_or (opts ''mouseInfluence'') (Num 0.5)] ++ opts"
| "this_options (ProjectAnimation p) opts =
     [''color'' \<mapsto> js_or (opts ''color'') (Num 0x4f46e5)] ++ opts"

subsection \<open>Geometry of each effect\<close>

definition mesh_material :: "jsval option \<Rightarrow> jsval option \<Rightarrow> bool \<Rightarrow> real \<Rightarrow> material" where
  "mesh_material c w t a =
     (basic_material MeshBasicMaterial c)\<lparr>wireframe := w, transparent := t, opacity := a\<rparr>"

definition line_material :: "jsval option \<Rightarrow> real \<Rightarrow> material" where
  "line_material c a = (basic_material LineBasicMaterial c)\<lparr>transparent := True, opacity := a\<rparr>"

definition placed :: "vec3 \<Rightarrow> object3d \<Rightarrow> object3d" where
  "placed p ob = ob\<lparr>position := p\<rparr>"

text \<open>\<open>AnimatedSphere.createSphere\<close>.\<close>

definition createSphere :: "animation \<Rightarrow> error + scene" where
  "createSphere this =
     (case to_number (options this ''radius'') of
        Inl e \<Rightarrow> Inl e
      | Inr radius \<Rightarrow>
          Inr (SphereScene
            (Mesh (IcosahedronGeometry radius 2)
               (mesh_material (options this ''color'') (options this ''wireframe'') True 0.8))
            (Mesh (IcosahedronGeometry (radius * 0.6) 1)
               (mesh_material (options this ''color'') (Some (Bool True)) True 0.3))))"

text \<open>
  A loop bound read from the options: a comparison with \<open>undefined\<close> is false, so the
  loop body never runs.
\<close>

definition rounds :: "jsval option \<Rightarrow> nat" where
  "rounds v = (case to_number v of Inl e \<Rightarrow> 0 | Inr c \<Rightarrow> loop_count c)"

text \<open>\<open>x < v\<close> for a number \<open>x\<close>.\<close>

definition js_less :: "real \<Rightarrow> jsval option \<Rightarrow> bool" where
  "js_less x v = (case to_number v of Inl e \<Rightarrow> False | Inr d \<Rightarrow> x < d)"

text \<open>
  \<open>NeuralNetwork.createNetwork\<close>: round \<open>i\<close> of the loop makes six calls of
  \<open>Math.random()\<close>, three for the position and three for the velocity.
\<close>

definition make_node :: "animation \<Rightarrow> host \<Rightarrow> nat \<Rightarrow> node" where
  "make_node this h i =
     \<lparr>geometry = SphereGeometry 0.05 8 8,
      material = (basic_material MeshBasicMaterial (options this ''nodeColor''))
                   \<lparr>transparent := True, opacity := 0.9\<rparr>,
      position = Vector3 ((rnd h (6 * i) - 0.5) * 4) ((rnd h (6 * i + 1) - 0.5) * 4)
                   ((rnd h (6 * i + 2) - 0.5) * 4),
      rotation = Vector3 0 0 0,
      scale = 1,
      velocity = Vector3 ((rnd h (6 * i + 3) - 0.5) * 0.01) ((rnd h (6 * i + 4) - 0.5) * 0.01)
                   ((rnd h (6 * i + 5) - 0.5) * 0.01)\<rparr>"

definition createNetwork :: "animation \<Rightarrow> host \<Rightarrow> scene \<times> host" where
  "createNetwork this h =
     (let n = rounds (options this ''nodeCount'') in
      (NetworkScene (map (make_node this h) [0..<n]) 0
         (line_material (options this ''lineColor'') 0.3) [] 0,
       drawn_randoms (6 * n) h))"

text \<open>
  \<open>DataCube.createCubes\<close>: round \<open>i\<close> makes six calls of \<open>Math.random()\<close>, in the order
  size, radius, height, the two rotation speeds, float offset.
\<close>

definition cube_colors :: "real list" where
  "cube_colors = [0x4f46e5, 0x8b5cf6, 0x06b6d4, 0x10b981, 0xf59e0b, 0xef4444]"

definition make_cube :: "host \<Rightarrow> real \<Rightarrow> nat \<Rightarrow> cube" where
  "make_cube h cubeCount i =
     (let sz = 0.3 + rnd h (6 * i) * 0.4;
          angle = (real i / cubeCount) * pi * 2;
          radius = 1.5 + rnd h (6 * i + 1) * 0.5
      in \<lparr>geometry = BoxGeometry sz sz sz,
          material = mesh_material (Some (Num (cube_colors ! (i mod length cube_colors))))
                       (Some (Bool True)) True 0.7,
          position = Vector3 (cos angle * radius) ((rnd h (6 * i + 2) - 0.5) * 2)
                       (sin angle * radius),
          rotation = Vector3 0 0 0,
          scale = 1,
          rotationSpeed_x = (rnd h (6 * i + 3) - 0.5) * 0.02,
          rotationSpeed_y = (rnd h (6 * i + 4) - 0.5) * 0.02,
          floatOffset = rnd h (6 * i + 5) * pi * 2\<rparr>)"

definition createCubes :: "animation \<Rightarrow> host \<Rightarrow> scene \<times> host" where
  "createCubes this h =
     (let n = rounds (options this ''cubeCount'');
          c = (case to_number (options this ''cubeCount'') of Inl e \<Rightarrow> 0 | Inr c \<Rightarrow> c)
      in (CubeScene (map (make_cube h c) [0..<n])
            (Mesh (IcosahedronGeometry 0.6 1) (mesh_material (Some (Num 0x1a1a1a)) (Some (Bool True)) True 0.8))
            0,
          drawn_randoms (6 * n) h))"

text \<open>The torus knot of \<open>GeometricAnimation.init\<close>.\<close>

definition createKnot :: "animation \<Rightarrow> scene" where
  "createKnot this =
     KnotScene (Mesh (TorusKnotGeometry 1 0.3 100 16)
       (mesh_material (options this ''color'') (Some (Bool True)) True 0.6))"

text \<open>\<open>ParticleField.createGeometry\<close>: 500 particles, three calls of \<open>Math.random()\<close> each.\<close>

definition createParticleField :: "animation \<Rightarrow> host \<Rightarrow> scene \<times> host" where
  "createParticleField this h =
     (ParticleScene
        (Mesh (BufferGeometry (map (\<lambda>i. Vector3 ((rnd h (3 * i) - 0.5) * 8)
                 ((rnd h (3 * i + 1) - 0.5) * 6) ((rnd h (3 * i + 2) - 0.5) * 4)) [0..<500]))
           ((basic_material PointsMaterial (options this ''color''))
              \<lparr>transparent := True, opacity := 0.8, point_size := 0.05\<rparr>))
        (Mesh (BoxGeometry 3 2.5 0.1)
           (mesh_material (options this ''color'') (Some (Bool True)) True 0.5)),
      drawn_randoms 1500 h)"

text \<open>\<open>MachineryMesh.createGeometry\<close>.\<close>

definition createMachinery :: "animation \<Rightarrow> scene" where
  "createMachinery this =
     (let m = mesh_material (options this ''color'') (Some (Bool True)) False 1 in
      MachineryScene
        (Mesh (TorusGeometry 1 0.3 8 20) m)
        ((Mesh (TorusGeometry 0.6 0.2 8 16) m)\<lparr>position := Vector3 2 0 0\<rparr>)
        (Mesh (BufferGeometry [Vector3 (- 2) 0 0, Vector3 2 0 0])
           (line_material (options this ''color'') 0.5))
        1 1)"

text \<open>\<open>DocumentNodes.createGeometry\<close>: five boxes and a line for every pair of them.\<close>

definition nodePositions :: "vec3 list" where
  "nodePositions = [Vector3 0 1.5 0, Vector3 (- 1.5) 0 0.5, Vector3 1.5 0 (- 0.5),
                    Vector3 (- 0.8) (- 1.2) 0, Vector3 0.8 (- 1.2) 0]"

definition createDocumentNodes :: "animation \<Rightarrow> scene" where
  "createDocumentNodes this =
     DocumentScene
       (map (\<lambda>pos. placed pos (Mesh (BoxGeometry 0.6 0.8 0.1)
               (mesh_material (options this ''color'') (Some (Bool True)) False 1)))
          nodePositions)
       (concat (map (\<lambda>i. map (\<lambda>j.
           Mesh (BufferGeometry [nodePositions ! i, nodePositions ! j])
             (line_material (options this ''color'') 0.3))
           [i + 1..<length nodePositions]) [0..<length nodePositions]))"

text \<open>\<open>DNAHelix.createGeometry\<close>: twenty pairs of spheres, a rung at every even index.\<close>

definition helix_point :: "real \<Rightarrow> real \<Rightarrow> vec3" where
  "helix_point angle y = Vector3 (cos angle * 1.2) y (sin angle * 1.2)"

definition createHelix :: "animation \<Rightarrow> scene" where
  "createHelix this =
     (let m = mesh_material (options this ''color'') (Some (Bool True)) False 1;
          p1 = (\<lambda>i. helix_point (real i * 0.5) ((real i - 10) * 0.3));
          p2 = (\<lambda>i. helix_point (real i * 0.5 + pi) ((real i - 10) * 0.3))
      in HelixScene
           (map (\<lambda>i. placed (p1 i) (Mesh (SphereGeometry 0.1 8 8) m)) [0..<20])
           (map (\<lambda>i. placed (p2 i) (Mesh (SphereGeometry 0.1 8 8) m)) [0..<20])
           (map (\<lambda>i. Mesh (BufferGeometry [p1 i, p2 i]) (line_material (options this ''color'') 0.4))
              (filter (\<lambda>i. i mod 2 = 0) [0..<20]))
           0)"

text \<open>\<open>ShieldBarrier.createGeometry\<close>: three rings of hexagons and an outer ring.\<close>

definition createShield :: "animation \<Rightarrow> scene" where
  "createShield this =
     (let hexRadius = 0.4;
          m = mesh_material (options this ''color'') (Some (Bool True)) True 0.7
      in ShieldScene
           (concat (map (\<lambda>ring.
              (let count = (if ring = 0 then 1 else ring * 6) in
               map (\<lambda>i.
                 (let angle = (real i / real count) * pi * 2;
                      distance = real ring * hexRadius * 1.8
                  in placed (Vector3 (cos angle * distance) (sin angle * distance) 0)
                       (Mesh (CircleGeometry hexRadius 6) m)))
               [0..<count])) [0..<3]))
           (Mesh (RingGeometry 2.2 2.4 32) m))"

text \<open>\<open>FlowPipeline.createGeometry\<close>.\<close>

definition createPipeline :: "animation \<Rightarrow> scene" where
  "createPipeline this =
     (let pipeMaterial = mesh_material (options this ''color'') (Some (Bool True)) True 0.5 in
      PipelineScene
        ((Mesh (CylinderGeometry 0.1 0.1 6 8 1 True) pipeMaterial)\<lparr>rotation := Vector3 0 0 (pi / 2)\<rparr>)
        (map (\<lambda>i. placed (Vector3 (- 3 + real i * 1.5) 0 0)
                (Mesh (SphereGeometry 0.15 8 8)
                   (mesh_material (options this ''color'') (Some (Bool True)) False 1)))
           [0..<5])
        (placed (Vector3 (- 3.5) 0 0) (Mesh (BoxGeometry 0.8 0.8 0.8) pipeMaterial))
        (placed (Vector3 3.5 0 0) (Mesh (BoxGeometry 0.8 0.8 0.8) pipeMaterial)))"

text \<open>The \<open>createGeometry\<close> hook of the six project animations.\<close>

fun createGeometry :: "project \<Rightarrow> animation \<Rightarrow> host \<Rightarrow> scene \<times> host" where
  "createGeometry ParticleField this h = createParticleField this h"
| "createGeometry MachineryMesh this h = (createMachinery this, h)"
| "createGeometry DocumentNodes this h = (createDocumentNodes this, h)"
| "createGeometry DNAHelix this h = (createHelix this, h)"
| "createGeometry ShieldBarrier this h = (createShield this, h)"
| "createGeometry FlowPipeline this h = (createPipeline this, h)"

section \<open>The per-frame update\<close>

definition turn :: "real \<Rightarrow> real \<Rightarrow> real \<Rightarrow> 'a object3d_scheme \<Rightarrow> 'a object3d_scheme" where
  "turn dx dy dz ob =
     ob\<lparr>rotation := Vector3 (vx (rotation ob) + dx) (vy (rotation ob) + dy) (vz (rotation ob) + dz)\<rparr>"

text \<open>
  The pointer influence of \<open>AnimatedSphere.animate\<close> and \<open>GeometricAnimation.animate\<close>:
  \<open>rotation.x += (targetRotation.x - rotation.x) * 0.05\<close>, and the same for \<open>y\<close>.
\<close>

definition ease :: "real \<times> real \<Rightarrow> object3d \<Rightarrow> object3d" where
  "ease tr ob =
     turn ((fst tr - vx (rotation ob)) * 0.05) ((snd tr - vy (rotation ob)) * 0.05) 0 ob"

text \<open>\<open>targetRotation.x = mouse.y * mouseInfluence\<close>, \<open>targetRotation.y = mouse.x * mouseInfluence\<close>.\<close>

definition target_of :: "real \<times> real \<Rightarrow> real \<Rightarrow> real \<times> real" where
  "target_of m influence = (snd m * influence, fst m * influence)"

definition animate_sphere ::
  "animation \<Rightarrow> object3d \<Rightarrow> object3d \<Rightarrow> error + (real \<times> real) \<times> scene" where
  "animate_sphere this sp inner =
     (case to_number (options this ''rotationSpeed'') of
        Inl e \<Rightarrow> Inl e
      | Inr s \<Rightarrow>
         (case to_number (options this ''mouseInfluence'') of
            Inl e \<Rightarrow> Inl e
          | Inr influence \<Rightarrow>
              (let tr = target_of (mouse this) influence in
               Inr (tr, SphereScene (ease tr (turn (s * 0.5) s 0 sp))
                          (turn (- (s * 0.3)) (- (s * 0.7)) 0 inner)))))"

definition animate_knot :: "animation \<Rightarrow> object3d \<Rightarrow> error + (real \<times> real) \<times> scene" where
  "animate_knot this m =
     (case to_number (options this ''mouseInfluence'') of
        Inl e \<Rightarrow> Inl e
      | Inr influence \<Rightarrow>
          (let tr = target_of (mouse this) influence in
           Inr (tr, KnotScene (ease tr (turn 0.003 0.005 0 m)))))"

text \<open>
  \<open>NeuralNetwork.animate\<close>: every node moves by its velocity, and a velocity component
  is negated when the new coordinate lies beyond 2 in absolute value.
\<close>

definition bounce :: "real \<Rightarrow> real \<Rightarrow> real" where
  "bounce p v = (if \<bar>p\<bar> > 2 then v * (- 1) else v)"

definition move_node :: "node \<Rightarrow> node" where
  "move_node nd =
     (let p = Vector3 (vx (position nd) + vx (velocity nd)) (vy (position nd) + vy (velocity nd))
                (vz (position nd) + vz (velocity nd))
      in nd\<lparr>position := p,
            velocity := Vector3 (bounce (vx p) (vx (velocity nd))) (bounce (vy p) (vy (velocity nd)))
                          (bounce (vz p) (vz (velocity nd)))\<rparr>)"

text \<open>
  \<open>NeuralNetwork.updateConnections\<close>: the old lines are removed, then the two nested
  loops add a line for every \<open>i < j\<close> whose nodes are closer than \<open>connectionDistance\<close>.
\<close>

definition updateConnections :: "node list \<Rightarrow> jsval option \<Rightarrow> material \<Rightarrow> object3d list" where
  "updateConnections ns connectionDistance m =
     concat (map (\<lambda>i. concat (map (\<lambda>j.
        if js_less (distanceTo (position (ns ! i)) (position (ns ! j))) connectionDistance
        then [Mesh (BufferGeometry [position (ns ! i), position (ns ! j)]) m]
        else [])
      [i + 1..<length ns])) [0..<length ns])"

definition animate_network ::
  "animation \<Rightarrow> node list \<Rightarrow> real \<Rightarrow> material \<Rightarrow> object3d list \<Rightarrow> real \<Rightarrow> host
     \<Rightarrow> error + scene \<times> host" where
  "animate_network this ns group_y m ls lines_y h =
     (let ns' = map move_node ns;
          ls' = (if rnd h 0 < 0.1
                 then updateConnections ns' (options this ''connectionDistance'') m else ls)
      in case to_number (options this ''rotationSpeed'') of
           Inl e \<Rightarrow> Inl e
         | Inr s \<Rightarrow> Inr (NetworkScene ns' (group_y + s) m ls' (lines_y + s), drawn_randoms 1 h))"

text \<open>\<open>DataCube.animate\<close>.\<close>

definition float_cube :: "real \<Rightarrow> cube \<Rightarrow> cube" where
  "float_cube time c =
     (turn (rotationSpeed_x c) (rotationSpeed_y c) 0 c)
       \<lparr>position := (position c)\<lparr>vy := vy (position c) + sin (time + floatOffset c) * 0.002\<rparr>\<rparr>"

definition animate_cubes ::
  "animation \<Rightarrow> cube list \<Rightarrow> object3d \<Rightarrow> real \<Rightarrow> host \<Rightarrow> error + scene \<times> host" where
  "animate_cubes this cs center scene_y h =
     (let time = now h 0 * 0.001 in
      case to_number (options this ''rotationSpeed'') of
        Inl e \<Rightarrow> Inl e
      | Inr s \<Rightarrow> Inr (CubeScene (map (float_cube time) cs) (turn 0.003 0.005 0 center) (scene_y + s),
                     read_clock 1 h))"

text \<open>The \<open>update\<close> hooks of the six project animations.\<close>

definition update_particles :: "object3d \<Rightarrow> object3d \<Rightarrow> host \<Rightarrow> scene \<times> host" where
  "update_particles ps bx h =
     (ParticleScene (turn 0 0.001 0 ps)
        (bx\<lparr>rotation := (rotation bx)\<lparr>vy := sin (now h 0 * 0.001) * 0.2,
                                        vx := cos (now h 1 * 0.0015) * 0.1\<rparr>\<rparr>),
      read_clock 2 h)"

definition update_machinery :: "object3d \<Rightarrow> object3d \<Rightarrow> object3d \<Rightarrow> real \<Rightarrow> real \<Rightarrow> scene" where
  "update_machinery g1 g2 l pulse direction =
     (let pulse' = pulse + 0.005 * direction;
          direction' = (if pulse' > 1.1 \<or> pulse' < 0.9 then direction * (- 1) else direction)
      in MachineryScene ((turn 0 0 0.01 g1)\<lparr>scale := pulse'\<rparr>) (turn 0 0 (- 0.015) g2) l
           pulse' direction')"

definition update_documents :: "object3d list \<Rightarrow> object3d list \<Rightarrow> host \<Rightarrow> scene \<times> host" where
  "update_documents ns ls h =
     (let time = now h 0 * 0.001 in
      (DocumentScene
         (map (\<lambda>(i, nd). nd\<lparr>rotation := (rotation nd)\<lparr>vy := time + real i * 0.5\<rparr>,
                             position := (position nd)\<lparr>vy := vy (position nd) + sin (time + real i) * 0.002\<rparr>\<rparr>)
            (enumerate 0 ns))
         ls,
       read_clock 1 h))"

definition swing :: "real \<Rightarrow> object3d \<Rightarrow> object3d" where
  "swing angle ob = ob\<lparr>position := (position ob)\<lparr>vx := cos angle * 1.2, vz := sin angle * 1.2\<rparr>\<rparr>"

definition update_helix ::
  "object3d list \<Rightarrow> object3d list \<Rightarrow> object3d list \<Rightarrow> real \<Rightarrow> scene" where
  "update_helix h1 h2 rs offset =
     (let offset' = offset + 0.01 in
      HelixScene
        (map (\<lambda>(i, ob). swing (real i * 0.5 + offset') ob) (enumerate 0 h1))
        (map (\<lambda>(i, ob). swing (real i * 0.5 + offset' + pi) ob) (enumerate 0 h2))
        rs offset')"

definition update_shield :: "object3d list \<Rightarrow> object3d \<Rightarrow> host \<Rightarrow> scene \<times> host" where
  "update_shield hs ring h =
     (let time = now h 0 * 0.001 in
      (ShieldScene
         (map (\<lambda>(i, hex). hex\<lparr>material := (material hex)\<lparr>opacity := 0.5 + sin (time * 2 + real i * 0.5) * 0.3\<rparr>\<rparr>)
            (enumerate 0 hs))
         (turn 0 0 0.005 ring),
       read_clock 1 h))"

text \<open>
  \<open>FlowPipeline.update\<close>: a particle advances by \<open>speed = 0.02\<close> and is put back at
  \<open>-3.5\<close> once it is beyond \<open>3.5\<close>.
\<close>

definition flow :: "object3d \<Rightarrow> object3d" where
  "flow particle =
     (let x = vx (position particle) + 0.02;
          x' = (if x > 3.5 then - 3.5 else x)
      in turn 0.02 0.02 0 (particle\<lparr>position := (position particle)\<lparr>vx := x'\<rparr>\<rparr>))"

definition update_pipeline :: "object3d \<Rightarrow> object3d list \<Rightarrow> object3d \<Rightarrow> object3d \<Rightarrow> scene" where
  "update_pipeline pp fs start fin =
     PipelineScene pp (map flow fs) (turn 0 0.01 0 start) (turn 0 (- 0.01) 0 fin)"

text \<open>
  What one frame does to the scene objects of each class, with the new
  \<open>targetRotation\<close> of the two classes that follow the pointer.
\<close>

fun update :: "animation \<Rightarrow> scene \<Rightarrow> host \<Rightarrow> error + (real \<times> real) \<times> scene \<times> host" where
  "update this (SphereScene sp inner) h =
     (case animate_sphere this sp inner of Inl e \<Rightarrow> Inl e | Inr (tr, sc) \<Rightarrow> Inr (tr, sc, h))"
| "update this (KnotScene m) h =
     (case animate_knot this m of Inl e \<Rightarrow> Inl e | Inr (tr, sc) \<Rightarrow> Inr (tr, sc, h))"
| "update this (NetworkScene ns group_y m ls lines_y) h =
     (case animate_network this ns group_y m ls lines_y h of
        Inl e \<Rightarrow> Inl e | Inr (sc, h') \<Rightarrow> Inr (targetRotation this, sc, h'))"
| "update this (CubeScene cs center scene_y) h =
     (case animate_cubes this cs center scene_y h of
        Inl e \<Rightarrow> Inl e | Inr (sc, h') \<Rightarrow> Inr (targetRotation this, sc, h'))"
| "update this (ParticleScene ps bx) h =
     (case update_particles ps bx h of (sc, h') \<Rightarrow> Inr (targetRotation this, sc, h'))"
| "update this (MachineryScene g1 g2 l pulse direction) h =
     Inr (targetRotation this, update_machinery g1 g2 l pulse direction, h)"
| "update this (DocumentScene ns ls) h =
     (case update_documents ns ls h of (sc, h') \<Rightarrow> Inr (targetRotation this, sc, h'))"
| "update this (HelixScene h1 h2 rs offset) h =
     Inr (targetRotation this, update_helix h1 h2 rs offset, h)"
| "update this (ShieldScene hs ring) h =
     (case update_shield hs ring h of (sc, h') \<Rightarrow> Inr (targetRotation this, sc, h'))"
| "update this (PipelineScene pp fs start fin) h =
     Inr (targetRotation this, update_pipeline pp fs start fin, h)"

text \<open>
  \<open>animate\<close>, the frame callback of every class: it asks for the next frame, updates
  the objects and renders them. Before \<open>init\<close> the objects it reads are \<open>undefined\<close>.
\<close>

definition render :: "scene \<Rightarrow> camera \<Rightarrow> renderer \<Rightarrow> renderer" where
  "render sc cam r = r\<lparr>drawn := drawn r @ [(sc, cam)]\<rparr>"

definition animate :: "animation \<Rightarrow> host \<Rightarrow> error + animation \<times> host" where
  "animate this h =
     (case stage this of
        None \<Rightarrow> Inl TypeError
      | Some (cam, r, sc) \<Rightarrow>
         (case update this sc (requestAnimationFrame h) of
            Inl e \<Rightarrow> Inl e
          | Inr (tr, sc', h') \<Rightarrow>
              Inr (this\<lparr>targetRotation := tr, stage := Some (cam, render sc' cam r, sc')\<rparr>, h')))"

section \<open>Initialisation, events and teardown\<close>

text \<open>
  The opening of every \<open>init\<close>: a perspective camera with the container's aspect
  ratio, a renderer (its constructor throws when no WebGL context is available) sized to
  the container, with the pixel ratio \<open>Math.min(window.devicePixelRatio, 2)\<close>, whose new
  canvas is appended to the container. The five classes differ in the field of view
  and in the camera distance only.
\<close>

definition mount :: "real \<Rightarrow> real \<Rightarrow> nat \<Rightarrow> host \<Rightarrow> error + camera \<times> renderer \<times> host" where
  "mount fv z el h =
     (if \<not> webgl h then Inl ContextError
      else
        (let cam = \<lparr>fov = fv, aspect = js_div (clientWidth h el) (clientHeight h el),
                    near = 0.1, far = 1000, camera_z = z\<rparr>;
             r = \<lparr>domElement = nextId h, antialias = True, alpha = True,
                  width = clientWidth h el, height = clientHeight h el,
                  pixelRatio = min (devicePixelRatio h) 2, disposed = False, drawn = []\<rparr>
         in Inr (cam, r,
                 h\<lparr>childNodes := (childNodes h)(el := childNodes h el @ [nextId h]),
                   nextId := Suc (nextId h)\<rparr>)))"

definition init_sphere :: "animation \<Rightarrow> nat \<Rightarrow> host \<Rightarrow> error + animation \<times> host" where
  "init_sphere this el h =
     (case mount 50 4 el h of
        Inl e \<Rightarrow> Inl e
      | Inr (cam, r, h1) \<Rightarrow>
         (case createSphere this of
            Inl e \<Rightarrow> Inl e
          | Inr sc \<Rightarrow>
              animate (this\<lparr>stage := Some (cam, r, sc)\<rparr>)
                (listen ''mousemove'' ''onMouseMove'' (listen ''resize'' ''onResize'' h1))))"

definition init_network :: "animation \<Rightarrow> nat \<Rightarrow> host \<Rightarrow> error + animation \<times> host" where
  "init_network this el h =
     (case mount 60 5 el h of
        Inl e \<Rightarrow> Inl e
      | Inr (cam, r, h1) \<Rightarrow>
         (case createNetwork this h1 of
            (sc, h2) \<Rightarrow>
              animate (this\<lparr>stage := Some (cam, r, sc)\<rparr>) (listen ''resize'' ''onResize'' h2)))"

definition init_cubes :: "animation \<Rightarrow> nat \<Rightarrow> host \<Rightarrow> error + animation \<times> host" where
  "init_cubes this el h =
     (case mount 50 6 el h of
        Inl e \<Rightarrow> Inl e
      | Inr (cam, r, h1) \<Rightarrow>
         (case createCubes this h1 of
            (sc, h2) \<Rightarrow>
              animate (this\<lparr>stage := Some (cam, r, sc)\<rparr>) (listen ''resize'' ''onResize'' h2)))"

definition init_geometric :: "animation \<Rightarrow> nat \<Rightarrow> host \<Rightarrow> error + animation \<times> host" where
  "init_geometric this el h =
     (case mount 50 5 el h of
        Inl e \<Rightarrow> Inl e
      | Inr (cam, r, h1) \<Rightarrow>
          animate (this\<lparr>stage := Some (cam, r, createKnot this)\<rparr>)
            (listen ''mousemove'' ''onMouseMove'' (listen ''resize'' ''onResize'' h1)))"

definition init_project :: "project \<Rightarrow> animation \<Rightarrow> nat \<Rightarrow> host \<Rightarrow> error + animation \<times> host" where
  "init_project p this el h =
     (case mount 50 5 el h of
        Inl e \<Rightarrow> Inl e
      | Inr (cam, r, h1) \<Rightarrow>
         (case createGeometry p this
                 (listen ''mousemove'' ''onMouseMove'' (listen ''resize'' ''onResize'' h1)) of
            (sc, h2) \<Rightarrow> animate (this\<lparr>stage := Some (cam, r, sc)\<rparr>) h2))"

text \<open>
  \<open>init\<close> reads \<open>this.container.clientWidth\<close> first: a type error without a container.
  \<open>init\<close> is modelled for an object on which it has not run before, so that
  \<open>this.nodes\<close> and \<open>this.cubes\<close> are empty, as the constructor leaves them, when
  \<open>createNetwork\<close> and \<open>createCubes\<close> fill them.
\<close>

definition init :: "animation \<Rightarrow> host \<Rightarrow> error + animation \<times> host" where
  "init this h =
     (case container this of
        None \<Rightarrow> Inl TypeError
      | Some el \<Rightarrow>
         (case effect this of
            AnimatedSphere \<Rightarrow> init_sphere this el h
          | NeuralNetwork \<Rightarrow> init_network this el h
          | DataCube \<Rightarrow> init_cubes this el h
          | GeometricAnimation \<Rightarrow> init_geometric this el h
          | ProjectAnimation p \<Rightarrow> init_project p this el h))"

text \<open>
  The constructors. All of them return early when the container is not resolved.
  \<open>NeuralNetwork\<close> and \<open>DataCube\<close> end with the comment
  \<^verbatim>\<open>// Skipping synchronous init to allow async init flow\<close> and do not call \<open>init\<close>;
  the other classes call it as their last statement.
\<close>

definition constructor :: "effect \<Rightarrow> target \<Rightarrow> jsobject \<Rightarrow> host \<Rightarrow> error + animation \<times> host" where
  "constructor e c opts h =
     (case resolve h c of
        Inl err \<Rightarrow> Inl err
      | Inr None \<Rightarrow> Inr (blank e, h)
      | Inr (Some el) \<Rightarrow>
         (let this = (blank e)\<lparr>container := Some el, options := this_options e opts\<rparr> in
          case e of
            AnimatedSphere \<Rightarrow> init (this\<lparr>mouse := (0, 0), targetRotation := (0, 0)\<rparr>) h
          | NeuralNetwork \<Rightarrow> Inr (this, h)
          | DataCube \<Rightarrow> Inr (this, h)
          | GeometricAnimation \<Rightarrow> init (this\<lparr>mouse := (0, 0), targetRotation := (0, 0)\<rparr>) h
          | ProjectAnimation p \<Rightarrow> init (this\<lparr>mouse := (0, 0)\<rparr>) h))"

text \<open>
  \<open>onResize\<close>, the same body in all five classes: the camera aspect and the renderer
  size are recomputed from the container; \<open>updateProjectionMatrix\<close> recomputes a matrix
  that is a function of the camera fields kept here.
\<close>

definition onResize :: "animation \<Rightarrow> host \<Rightarrow> error + animation" where
  "onResize this h =
     (case container this of
        None \<Rightarrow> Inl TypeError
      | Some el \<Rightarrow>
         (case stage this of
            None \<Rightarrow> Inl TypeError
          | Some (cam, r, sc) \<Rightarrow>
              (let w = clientWidth h el; ht = clientHeight h el in
               Inr (this\<lparr>stage := Some (cam\<lparr>aspect := js_div w ht\<rparr>,
                                          r\<lparr>width := w, height := ht\<rparr>, sc)\<rparr>))))"

text \<open>
  \<open>onMouseMove\<close> of \<open>AnimatedSphere\<close>, \<open>GeometricAnimation\<close> and \<open>ProjectAnimation\<close>;
  the other two classes have no such function, and an object whose constructor
  returned early has no \<open>mouse\<close>.
\<close>

definition onMouseMove :: "animation \<Rightarrow> host \<Rightarrow> real \<times> real \<Rightarrow> error + animation" where
  "onMouseMove this h ev =
     (if effect this = NeuralNetwork \<or> effect this = DataCube \<or> container this = None
      then Inl TypeError
      else if innerWidth h = 0 \<or> innerHeight h = 0 then Inl NotANumber
      else Inr (this\<lparr>mouse := ((fst ev / real (innerWidth h)) * 2 - 1,
                              - (snd ev / real (innerHeight h)) * 2 + 1)\<rparr>))"

text \<open>
  \<open>AnimatedSphere.destroy\<close>, the only teardown. It passes \<open>this.onResize\<close> and
  \<open>this.onMouseMove\<close>, the functions of the prototype, to \<open>removeEventListener\<close>.
  \<open>removeChild\<close> throws when the canvas is not a child of the container.
\<close>

definition destroy :: "animation \<Rightarrow> host \<Rightarrow> error + animation \<times> host" where
  "destroy this h =
     (if effect this \<noteq> AnimatedSphere then Inl TypeError
      else
        (let h1 = removeEventListener ''mousemove'' (Proto ''onMouseMove'')
                    (removeEventListener ''resize'' (Proto ''onResize'') h)
         in case stage this of
              None \<Rightarrow> Inl TypeError
            | Some (cam, r, sc) \<Rightarrow>
               (case container this of
                  None \<Rightarrow> Inl TypeError
                | Some el \<Rightarrow>
                    if domElement r \<notin> set (childNodes h1 el) then Inl NotFoundError
                    else Inr (this\<lparr>stage := Some (cam, r\<lparr>disposed := True\<rparr>, sc)\<rparr>,
                              h1\<lparr>childNodes := (childNodes h1)
                                    (el := remove1 (domElement r) (childNodes h1 el))\<rparr>))))"

section \<open>Notions used in the statements\<close>

text \<open>\<open>n\<close> successive frames, the pointer and the window left alone in between.\<close>

fun frames :: "nat \<Rightarrow> animation \<Rightarrow> host \<Rightarrow> error + animation \<times> host" where
  "frames 0 this h = Inr (this, h)"
| "frames (Suc n) this h =
     (case animate this h of Inl e \<Rightarrow> Inl e | Inr (this', h') \<Rightarrow> frames n this' h')"

text \<open>The scene objects that belong to each class.\<close>

fun scene_class :: "scene \<Rightarrow> effect" where
  "scene_class (SphereScene sp inner) = AnimatedSphere"
| "scene_class (NetworkScene ns group_y m ls lines_y) = NeuralNetwork"
| "scene_class (CubeScene cs center scene_y) = DataCube"
| "scene_class (KnotScene m) = GeometricAnimation"
| "scene_class (ParticleScene ps bx) = ProjectAnimation ParticleField"
| "scene_class (MachineryScene g1 g2 l pulse direction) = ProjectAnimation MachineryMesh"
| "scene_class (DocumentScene ns ls) = ProjectAnimation DocumentNodes"
| "scene_class (HelixScene h1 h2 rs offset) = ProjectAnimation DNAHelix"
| "scene_class (ShieldScene hs ring) = ProjectAnimation ShieldBarrier"
| "scene_class (PipelineScene pp fs start fin) = ProjectAnimation FlowPipeline"

definition fits :: "effect \<Rightarrow> scene \<Rightarrow> bool" where
  "fits e sc = (scene_class sc = e)"

text \<open>
  A window with one element \<open>7\<close>, found by the selector \<open>#hero\<close>, 800 by 600 pixels, on
  a display of device pixel ratio 3; \<open>Math.random()\<close> always yields one half.
\<close>

definition demo_host :: host where
  "demo_host =
     \<lparr>querySelector = (\<lambda>s. if s = ''#hero'' then Inr (Some 7) else Inr None),
      clientWidth = (\<lambda>el. 800), clientHeight = (\<lambda>el. 600),
      childNodes = (\<lambda>el. []), listeners = [], frameRequests = [],
      devicePixelRatio = 3, innerWidth = 1280, innerHeight = 720, webgl = True,
      nextId = 8, random = (\<lambda>k. 1 / 2), randomCalls = 0, clock = (\<lambda>k. 0), clockCalls = 0\<rparr>"

text \<open>A network of two nodes on element \<open>7\<close>, as its constructor leaves it.\<close>

definition demo_network :: animation where
  "demo_network =
     (blank NeuralNetwork)\<lparr>container := Some 7,
        options := this_options NeuralNetwork [''nodeCount'' \<mapsto> Num 2]\<rparr>"

text \<open>
  What a successful \<open>init\<close> leaves behind: one new canvas, the renderer's, as the last
  child of the container and no other change of the document, and a stage whose objects
  are those of the class and have been drawn once.
\<close>

definition mounted :: "host \<Rightarrow> nat \<Rightarrow> animation \<Rightarrow> host \<Rightarrow> bool" where
  "mounted h el this' h' =
     (childNodes h' = (childNodes h)(el := childNodes h el @ [nextId h])
      \<and> container this' = Some el
      \<and> (case stage this' of
            None \<Rightarrow> False
          | Some (cam, r, sc) \<Rightarrow>
              domElement r = nextId h \<and> fits (effect this') sc \<and> drawn r = [(sc, cam)]))"

text \<open>The options a frame of each class uses as numbers.\<close>

fun reads :: "scene \<Rightarrow> string list" where
  "reads (SphereScene sp inner) = [''rotationSpeed'', ''mouseInfluence'']"
| "reads (KnotScene m) = [''mouseInfluence'']"
| "reads (NetworkScene ns group_y m ls lines_y) = [''rotationSpeed'']"
| "reads (CubeScene cs center scene_y) = [''rotationSpeed'']"
| "reads sc = []"

text \<open>
  The number of unordered pairs of nodes whose distance is below the threshold, the
  comparison read as the code reads it.
\<close>

definition close_pairs :: "node list \<Rightarrow> jsval option \<Rightarrow> nat" where
  "close_pairs ns d =
     card {(i, j). i < j \<and> j < length ns
                   \<and> js_less (distanceTo (position (ns ! i)) (position (ns ! j))) d}"

text \<open>
  Concrete running effects: the camera and renderer that \<open>init\<close> makes in the
  demonstration window, put on stage with given scene objects.
\<close>

definition demo_camera :: "real \<Rightarrow> real \<Rightarrow> camera" where
  "demo_camera fv z = \<lparr>fov = fv, aspect = js_div 800 600, near = 0.1, far = 1000, camera_z = z\<rparr>"

definition demo_renderer :: renderer where
  "demo_renderer =
     \<lparr>domElement = 8, antialias = True, alpha = True, width = 800, height = 600,
      pixelRatio = 2, disposed = False, drawn = []\<rparr>"

definition on_stage :: "real \<Rightarrow> real \<Rightarrow> animation \<Rightarrow> scene \<Rightarrow> animation" where
  "on_stage fv z this sc = this\<lparr>stage := Some (demo_camera fv z, demo_renderer, sc)\<rparr>"

definition node_at :: "vec3 \<Rightarrow> vec3 \<Rightarrow> node" where
  "node_at p v =
     \<lparr>geometry = SphereGeometry 0.05 8 8,
      material = (basic_material MeshBasicMaterial (Some (Num 0x4f46e5)))
                   \<lparr>transparent := True, opacity := 0.9\<rparr>,
      position = p, rotation = Vector3 0 0 0, scale = 1, velocity = v\<rparr>"

definition demo_pair :: animation where
  "demo_pair =
     on_stage 60 5 demo_network
       (NetworkScene [node_at (Vector3 0 0 0) (Vector3 0 0 0), node_at (Vector3 1 0 0) (Vector3 0 0 0)]
          0 (line_material (Some (Num 0x8b5cf6)) 0.3) [] 0)"

text \<open>
  One coordinate of a node and its velocity: the speed is below \<open>0.005\<close>, and the
  coordinate is within \<open>[-2, 2]\<close> or has overshot by at most one step and is heading back.
\<close>

definition calm :: "real \<Rightarrow> real \<Rightarrow> bool" where
  "calm p v =
     (\<bar>v\<bar> < 0.005
      \<and> (\<bar>p\<bar> \<le> 2 \<or> (2 < p \<and> p \<le> 2 - v \<and> v < 0) \<or> (p < - 2 \<and> - 2 - v \<le> p \<and> 0 < v)))"

definition calm_node :: "node \<Rightarrow> bool" where
  "calm_node nd =
     (calm (vx (position nd)) (vx (velocity nd)) \<and> calm (vy (position nd)) (vy (velocity nd))
      \<and> calm (vz (position nd)) (vz (velocity nd)))"

definition demo_bouncer :: animation where
  "demo_bouncer =
     on_stage 60 5 demo_network
       (NetworkScene [node_at (Vector3 1.999 0 (- 1.999)) (Vector3 0.004 0 (- 0.004))]
          0 (line_material (Some (Num 0x8b5cf6)) 0.3) [] 0)"

text \<open>
  A sphere with the default options as \<open>init\<close> has it before the first frame, and a
  flow pipeline with the default options whose particles have advanced to \<open>x = 3.49\<close>.
\<close>

definition demo_sphere :: animation where
  "demo_sphere =
     (let this = (blank AnimatedSphere)\<lparr>container := Some 7,
                   options := this_options AnimatedSphere Map.empty\<rparr>
      in case createSphere this of Inl e \<Rightarrow> this | Inr sc \<Rightarrow> on_stage 50 4 this sc)"


text \<open>A torus knot with the default options as \<open>init\<close> has it before the first frame.\<close>

definition demo_knot :: animation where
  "demo_knot =
     (let this = (blank GeometricAnimation)\<lparr>container := Some 7,
                   options := this_options GeometricAnimation Map.empty\<rparr>
      in on_stage 50 5 this (createKnot this))"

text \<open>
  The defaults that each constructor writes down, and the option keys it recognises:
  those it gives a default.
\<close>

fun defaults :: "effect \<Rightarrow> (string \<times> jsval) list" where
  "defaults AnimatedSphere =
     [(''color'', Num 0x1a1a1a), (''wireframe'', Bool True), (''segments'', Num 32),
      (''radius'', Num 1.5), (''rotationSpeed'', Num 0.001), (''mouseInfluence'', Num 0.1)]"
| "defaults NeuralNetwork =
     [(''nodeCount'', Num 50), (''connectionDistance'', Num 2), (''nodeColor'', Num 0x4f46e5),
      (''lineColor'', Num 0x8b5cf6), (''rotationSpeed'', Num 0.0005)]"
| "defaults DataCube =
     [(''cubeCount'', Num 6), (''cubeColor'', Num 0x4f46e5), (''rotationSpeed'', Num 0.005)]"
| "defaults GeometricAnimation =
     [(''color'', Num 0x4f46e5), (''size'', Num 1.5), (''mouseInfluence'', Num 0.5)]"
| "defaults (ProjectAnimation p) = [(''color'', Num 0x4f46e5)]"

definition recognised :: "effect \<Rightarrow> string set" where
  "recognised e = fst ` set (defaults e)"

text \<open>
  The life of an effect as its page drives it: the constructor; \<open>init\<close> at some later
  moment for the two classes whose constructor leaves it out; then any sequence of
  frames, resize and pointer events and \<open>destroy\<close> calls, the window changing in any
  way (\<open>env\<close>) before each of them.
\<close>

datatype call = Animate | OnResize | OnMouseMove real real | Destroy

fun invoke :: "call \<Rightarrow> animation \<Rightarrow> host \<Rightarrow> error + animation \<times> host" where
  "invoke Animate this h = animate this h"
| "invoke OnResize this h =
     (case onResize this h of Inl e \<Rightarrow> Inl e | Inr this' \<Rightarrow> Inr (this', h))"
| "invoke (OnMouseMove x y) this h =
     (case onMouseMove this h (x, y) of Inl e \<Rightarrow> Inl e | Inr this' \<Rightarrow> Inr (this', h))"
| "invoke Destroy this h = destroy this h"

fun run :: "((host \<Rightarrow> host) \<times> call) list \<Rightarrow> animation \<Rightarrow> host \<Rightarrow> error + animation \<times> host" where
  "run [] this h = Inr (this, h)"
| "run ((env, c) # cs) this h =
     (case invoke c this (env h) of Inl e \<Rightarrow> Inl e | Inr (this', h') \<Rightarrow> run cs this' h')"

definition launch ::
  "effect \<Rightarrow> target \<Rightarrow> jsobject \<Rightarrow> host \<Rightarrow> (host \<Rightarrow> host) \<Rightarrow> ((host \<Rightarrow> host) \<times> call) list
     \<Rightarrow> error + animation \<times> host" where
  "launch e c opts h env cs =
     (case constructor e c opts h of
        Inl err \<Rightarrow> Inl err
      | Inr (this, h1) \<Rightarrow>
          if stage this = None \<and> container this \<noteq> None
          then (case init this (env h1) of
                  Inl err \<Rightarrow> Inl err
                | Inr (this', h2) \<Rightarrow> run cs this' h2)
          else run cs this h1)"

text \<open>What can be observed of an outcome: everything but the stored options.\<close>

definition observe :: "error + animation \<times> host \<Rightarrow> error + animation \<times> host" where
  "observe res =
     (case res of Inl e \<Rightarrow> Inl e | Inr (this, h) \<Rightarrow> Inr (this\<lparr>options := Map.empty\<rparr>, h))"

text \<open>
  Further keys \<open>x\<close> stored in the options of a constructed object, and the same for an
  outcome; an object carries the objects of its own class.
\<close>

definition with_extra :: "jsobject \<Rightarrow> animation \<Rightarrow> animation" where
  "with_extra x this =
     (if container this = None then this else this\<lparr>options := options this ++ x\<rparr>)"

definition lift_extra :: "jsobject \<Rightarrow> error + animation \<times> host \<Rightarrow> error + animation \<times> host" where
  "lift_extra x res =
     (case res of Inl e \<Rightarrow> Inl e | Inr (this, h) \<Rightarrow> Inr (with_extra x this, h))"

definition well_staged :: "animation \<Rightarrow> bool" where
  "well_staged this =
     (case stage this of None \<Rightarrow> True | Some (cam, r, sc) \<Rightarrow> fits (effect this) sc)"

section \<open>Auxiliary facts\<close>

lemmas host_ops = listen_def addEventListener_def removeEventListener_def
  requestAnimationFrame_def rnd_def drawn_randoms_def now_def read_clock_def

lemmas build_defs = createSphere_def createNetwork_def createCubes_def createKnot_def
  createParticleField_def createMachinery_def createDocumentNodes_def createHelix_def
  createShield_def createPipeline_def mesh_material_def line_material_def basic_material_def
  Mesh_def Vector3_def placed_def rounds_def loop_count_def js_or_def

lemmas init_defs = init_def init_sphere_def init_network_def init_cubes_def init_geometric_def
  init_project_def

lemma mount_result:
  "mount fv z el h = Inr (cam, r, h1) \<Longrightarrow>
     pixelRatio r = min (devicePixelRatio h) 2 \<and> drawn r = [] \<and> domElement r = nextId h
     \<and> width r = clientWidth h el \<and> height r = clientHeight h el
     \<and> aspect cam = js_div (clientWidth h el) (clientHeight h el)"
  by (auto simp: mount_def Let_def split: if_splits)

lemma animate_stage:
  "animate this h = Inr (this', h') \<Longrightarrow> stage this = Some (cam, r, sc) \<Longrightarrow>
     \<exists>sc'. stage this' = Some (cam, render sc' cam r, sc') \<and> container this' = container this
       \<and> options this' = options this \<and> effect this' = effect this \<and> mouse this' = mouse this"
  by (auto simp: animate_def split: sum.splits prod.splits)

lemma to_number_defined: "v \<noteq> None \<Longrightarrow> \<exists>x. to_number v = Inr x"
proof (cases v)
  case (Some a) then show ?thesis by (cases a) auto
qed simp

lemma this_options_keys:
  "this_options AnimatedSphere opts ''radius'' \<noteq> None"
  "this_options AnimatedSphere opts ''rotationSpeed'' \<noteq> None"
  "this_options AnimatedSphere opts ''mouseInfluence'' \<noteq> None"
  "this_options NeuralNetwork opts ''rotationSpeed'' \<noteq> None"
  "this_options DataCube opts ''rotationSpeed'' \<noteq> None"
  "this_options GeometricAnimation opts ''mouseInfluence'' \<noteq> None"
  by (auto simp: map_add_def split: option.splits)

lemma update_total:
  assumes "\<forall>k \<in> set (reads sc). options this k \<noteq> None" and "fits e sc"
  shows "\<exists>tr sc' h'. update this sc h = Inr (tr, sc', h') \<and> fits e sc'
           \<and> childNodes h' = childNodes h \<and> listeners h' = listeners h \<and> nextId h' = nextId h
           \<and> frameRequests h' = frameRequests h"
proof (cases sc)
  case (SphereScene sp inner)
  with assms obtain s i where "to_number (options this ''rotationSpeed'') = Inr s"
    "to_number (options this ''mouseInfluence'') = Inr i"
    using to_number_defined by (metis list.set_intros(1,2) reads.simps(1))
  with SphereScene assms(2) show ?thesis
    by (auto simp: fits_def animate_sphere_def Let_def)
next
  case (NetworkScene ns gy m ls ly)
  with assms obtain s where "to_number (options this ''rotationSpeed'') = Inr s"
    using to_number_defined by (metis list.set_intros(1) reads.simps(3))
  with NetworkScene assms(2) show ?thesis
    by (auto simp: fits_def animate_network_def Let_def drawn_randoms_def)
next
  case (CubeScene cs center sy)
  with assms obtain s where "to_number (options this ''rotationSpeed'') = Inr s"
    using to_number_defined by (metis list.set_intros(1) reads.simps(4))
  with CubeScene assms(2) show ?thesis
    by (auto simp: fits_def animate_cubes_def Let_def read_clock_def)
next
  case (KnotScene m)
  with assms obtain i where "to_number (options this ''mouseInfluence'') = Inr i"
    using to_number_defined by (metis list.set_intros(1) reads.simps(2))
  with KnotScene assms(2) show ?thesis
    by (auto simp: fits_def animate_knot_def Let_def)
next
  case (ParticleScene ps bx)
  with assms(2) show ?thesis
    by (auto simp: fits_def update_particles_def read_clock_def )
next
  case (MachineryScene g1 g2 l p d)
  with assms(2) show ?thesis
    by (auto simp: fits_def update_machinery_def Let_def )
next
  case (DocumentScene ns ls)
  with assms(2) show ?thesis
    by (auto simp: fits_def update_documents_def Let_def read_clock_def )
next
  case (HelixScene h1 h2 rs off)
  with assms(2) show ?thesis
    by (auto simp: fits_def update_helix_def Let_def )
next
  case (ShieldScene hs ring)
  with assms(2) show ?thesis
    by (auto simp: fits_def update_shield_def Let_def read_clock_def )
next
  case (PipelineScene pp fs st fin)
  with assms(2) show ?thesis
    by (auto simp: fits_def update_pipeline_def )
qed

lemma animate_total:
  assumes "stage this = Some (cam, r, sc)" and "\<forall>k \<in> set (reads sc). options this k \<noteq> None"
    and "fits e sc"
  shows "\<exists>this' h' sc'. animate this h = Inr (this', h')
           \<and> stage this' = Some (cam, render sc' cam r, sc') \<and> fits e sc'
           \<and> childNodes h' = childNodes h \<and> listeners h' = listeners h
           \<and> container this' = container this \<and> effect this' = effect this
           \<and> options this' = options this \<and> mouse this' = mouse this"
proof -
  from update_total [OF assms(2,3), of "requestAnimationFrame h"]
  obtain tr sc' h' where u: "update this sc (requestAnimationFrame h) = Inr (tr, sc', h')"
    and f: "fits e sc'" and c: "childNodes h' = childNodes (requestAnimationFrame h)"
    and l: "listeners h' = listeners (requestAnimationFrame h)"
    by blast
  show ?thesis
    using assms(1) u f c l by (simp add: animate_def requestAnimationFrame_def)
qed

lemma mount_ok:
  "webgl h \<Longrightarrow> \<exists>cam r h1. mount fv z el h = Inr (cam, r, h1) \<and> drawn r = [] \<and> domElement r = nextId h
     \<and> childNodes h1 = (childNodes h)(el := childNodes h el @ [nextId h])"
  by (simp add: mount_def Let_def)

lemma listen_childNodes [simp]: "childNodes (listen ty m h) = childNodes h"
  by (simp add: listen_def addEventListener_def)

lemma create_childNodes:
  "createNetwork this h = (sc, h') \<Longrightarrow> childNodes h' = childNodes h \<and> fits NeuralNetwork sc \<and> reads sc = [''rotationSpeed'']"
  "createCubes this h = (sc2, h2) \<Longrightarrow> childNodes h2 = childNodes h \<and> fits DataCube sc2 \<and> reads sc2 = [''rotationSpeed'']"
  "createGeometry p this h = (sc3, h3) \<Longrightarrow> childNodes h3 = childNodes h \<and> fits (ProjectAnimation p) sc3 \<and> reads sc3 = []"
    apply (auto simp: createNetwork_def createCubes_def Let_def drawn_randoms_def fits_def)[2]
  apply (cases p)
  apply (auto simp: createParticleField_def createMachinery_def createDocumentNodes_def createHelix_def
       createShield_def createPipeline_def Let_def drawn_randoms_def fits_def)
  done

lemma createSphere_ok:
  "options this ''radius'' \<noteq> None \<Longrightarrow> \<exists>sc. createSphere this = Inr sc \<and> fits AnimatedSphere sc
      \<and> reads sc = [''rotationSpeed'', ''mouseInfluence'']"
  using to_number_defined [of "options this ''radius''"]
  by (auto simp: createSphere_def fits_def)

lemma createKnot_ok: "fits GeometricAnimation (createKnot this) \<and> reads (createKnot this) = [''mouseInfluence'']"
  by (simp add: createKnot_def fits_def)

lemma mounted_after_animate:
  assumes a: "animate (this\<lparr>stage := Some (cam, r, sc)\<rparr>) h2 = Inr (this', h')"
    and s: "stage this' = Some (cam, render sc' cam r, sc')" and f: "fits (effect this) sc'"
    and c: "childNodes h' = childNodes h2" and e: "effect this' = effect this"
    and k: "container this' = Some el"
    and r: "drawn r = []" "domElement r = nextId h"
    and h2: "childNodes h2 = (childNodes h)(el := childNodes h el @ [nextId h])"
  shows "mounted h el this' h'"
  using assms by (simp add: mounted_def render_def)

lemma init_total:
  assumes k: "container this = Some el" and w: "webgl h"
    and o: "options this = this_options (effect this) opts"
  shows "\<exists>this' h'. init this h = Inr (this', h') \<and> mounted h el this' h'
           \<and> options this' = options this \<and> effect this' = effect this"
proof (cases "effect this")
  case AnimatedSphere
  from mount_ok [OF w, of 50 4 el] obtain cam r h1 where
    m: "mount 50 4 el h = Inr (cam, r, h1)" and r: "drawn r = []" "domElement r = nextId h"
    and c: "childNodes h1 = (childNodes h)(el := childNodes h el @ [nextId h])" by blast
  from o AnimatedSphere have "options this ''radius'' \<noteq> None" "options this ''rotationSpeed'' \<noteq> None"
    "options this ''mouseInfluence'' \<noteq> None"
    by (simp_all add: this_options_keys)
  then obtain sc where sc: "createSphere this = Inr sc" "fits AnimatedSphere sc"
      and rd: "\<forall>k \<in> set (reads sc). options this k \<noteq> None"
    using createSphere_ok [of this] by auto
  let ?h2 = "listen ''mousemove'' ''onMouseMove'' (listen ''resize'' ''onResize'' h1)"
  from animate_total [of "this\<lparr>stage := Some (cam, r, sc)\<rparr>" cam r sc AnimatedSphere ?h2] sc rd
  obtain this' h' sc' where a: "animate (this\<lparr>stage := Some (cam, r, sc)\<rparr>) ?h2 = Inr (this', h')"
    and s: "stage this' = Some (cam, render sc' cam r, sc')" "fits AnimatedSphere sc'"
      "childNodes h' = childNodes ?h2" "container this' = container this" "effect this' = effect this"
      "options this' = options this"
    by auto
  have "mounted h el this' h'"
    by (rule mounted_after_animate [OF a s(1) _ s(3) _ _ r]) (use s k c AnimatedSphere in simp_all)
  moreover have "init this h = Inr (this', h')"
    using k AnimatedSphere m sc a by (simp add: init_def init_sphere_def)
  ultimately show ?thesis using s by blast
next
  case NeuralNetwork
  from mount_ok [OF w, of 60 5 el] obtain cam r h1 where
    m: "mount 60 5 el h = Inr (cam, r, h1)" and r: "drawn r = []" "domElement r = nextId h"
    and c: "childNodes h1 = (childNodes h)(el := childNodes h el @ [nextId h])" by blast
  obtain sc h2 where cr: "createNetwork this h1 = (sc, h2)" by (cases "createNetwork this h1")
  note f = create_childNodes(1) [OF cr]
  from o NeuralNetwork f have rd: "\<forall>k \<in> set (reads sc). options this k \<noteq> None"
    by (simp add: this_options_keys)
  let ?h2 = "listen ''resize'' ''onResize'' h2"
  from animate_total [of "this\<lparr>stage := Some (cam, r, sc)\<rparr>" cam r sc NeuralNetwork ?h2] f rd
  obtain this' h' sc' where a: "animate (this\<lparr>stage := Some (cam, r, sc)\<rparr>) ?h2 = Inr (this', h')"
    and s: "stage this' = Some (cam, render sc' cam r, sc')" "fits NeuralNetwork sc'"
      "childNodes h' = childNodes ?h2" "container this' = container this" "effect this' = effect this"
      "options this' = options this"
    by auto
  have "mounted h el this' h'"
    by (rule mounted_after_animate [OF a s(1) _ s(3) _ _ r]) (use s k c f NeuralNetwork in simp_all)
  moreover have "init this h = Inr (this', h')"
    using k NeuralNetwork m cr a by (simp add: init_def init_network_def)
  ultimately show ?thesis using s by blast
next
  case DataCube
  from mount_ok [OF w, of 50 6 el] obtain cam r h1 where
    m: "mount 50 6 el h = Inr (cam, r, h1)" and r: "drawn r = []" "domElement r = nextId h"
    and c: "childNodes h1 = (childNodes h)(el := childNodes h el @ [nextId h])" by blast
  obtain sc h2 where cr: "createCubes this h1 = (sc, h2)" by (cases "createCubes this h1")
  note f = create_childNodes(2) [OF cr]
  from o DataCube f have rd: "\<forall>k \<in> set (reads sc). options this k \<noteq> None"
    by (simp add: this_options_keys)
  let ?h2 = "listen ''resize'' ''onResize'' h2"
  from animate_total [of "this\<lparr>stage := Some (cam, r, sc)\<rparr>" cam r sc DataCube ?h2] f rd
  obtain this' h' sc' where a: "animate (this\<lparr>stage := Some (cam, r, sc)\<rparr>) ?h2 = Inr (this', h')"
    and s: "stage this' = Some (cam, render sc' cam r, sc')" "fits DataCube sc'"
      "childNodes h' = childNodes ?h2" "container this' = container this" "effect this' = effect this"
      "options this' = options this"
    by auto
  have "mounted h el this' h'"
    by (rule mounted_after_animate [OF a s(1) _ s(3) _ _ r]) (use s k c f DataCube in simp_all)
  moreover have "init this h = Inr (this', h')"
    using k DataCube m cr a by (simp add: init_def init_cubes_def)
  ultimately show ?thesis using s by blast
next
  case GeometricAnimation
  from mount_ok [OF w, of 50 5 el] obtain cam r h1 where
    m: "mount 50 5 el h = Inr (cam, r, h1)" and r: "drawn r = []" "domElement r = nextId h"
    and c: "childNodes h1 = (childNodes h)(el := childNodes h el @ [nextId h])" by blast
  let ?sc = "createKnot this"
  from o GeometricAnimation have rd: "\<forall>k \<in> set (reads ?sc). options this k \<noteq> None"
    by (simp add: this_options_keys createKnot_ok)
  let ?h2 = "listen ''mousemove'' ''onMouseMove'' (listen ''resize'' ''onResize'' h1)"
  from animate_total [of "this\<lparr>stage := Some (cam, r, ?sc)\<rparr>" cam r ?sc GeometricAnimation ?h2] rd
  obtain this' h' sc' where a: "animate (this\<lparr>stage := Some (cam, r, ?sc)\<rparr>) ?h2 = Inr (this', h')"
    and s: "stage this' = Some (cam, render sc' cam r, sc')" "fits GeometricAnimation sc'"
      "childNodes h' = childNodes ?h2" "container this' = container this" "effect this' = effect this"
      "options this' = options this"
    using createKnot_ok [of this] by auto
  have "mounted h el this' h'"
    by (rule mounted_after_animate [OF a s(1) _ s(3) _ _ r]) (use s k c GeometricAnimation in simp_all)
  moreover have "init this h = Inr (this', h')"
    using k GeometricAnimation m a by (simp add: init_def init_geometric_def)
  ultimately show ?thesis using s by blast
next
  case (ProjectAnimation p)
  from mount_ok [OF w, of 50 5 el] obtain cam r h1 where
    m: "mount 50 5 el h = Inr (cam, r, h1)" and r: "drawn r = []" "domElement r = nextId h"
    and c: "childNodes h1 = (childNodes h)(el := childNodes h el @ [nextId h])" by blast
  let ?h1 = "listen ''mousemove'' ''onMouseMove'' (listen ''resize'' ''onResize'' h1)"
  obtain sc h2 where cr: "createGeometry p this ?h1 = (sc, h2)" by (cases "createGeometry p this ?h1")
  note f = create_childNodes(3) [OF cr]
  from f have rd: "\<forall>k \<in> set (reads sc). options this k \<noteq> None"
    by simp
  from animate_total [of "this\<lparr>stage := Some (cam, r, sc)\<rparr>" cam r sc "ProjectAnimation p" h2] f rd
  obtain this' h' sc' where a: "animate (this\<lparr>stage := Some (cam, r, sc)\<rparr>) h2 = Inr (this', h')"
    and s: "stage this' = Some (cam, render sc' cam r, sc')" "fits (ProjectAnimation p) sc'"
      "childNodes h' = childNodes h2" "container this' = container this" "effect this' = effect this"
      "options this' = options this"
    by auto
  have "mounted h el this' h'"
    by (rule mounted_after_animate [OF a s(1) _ s(3) _ _ r]) (use s k c f ProjectAnimation in simp_all)
  moreover have "init this h = Inr (this', h')"
    using k ProjectAnimation m cr a by (simp add: init_def init_project_def)
  ultimately show ?thesis using s by blast
qed

lemma demo_network_facts:
  "container demo_network = Some 7" "effect demo_network = NeuralNetwork"
  "options demo_network = this_options (effect demo_network) [''nodeCount'' \<mapsto> Num 2]"
  "stage demo_network = None"
  by (simp_all add: demo_network_def blank_def)

lemma demo_host_facts:
  "webgl demo_host" "nextId demo_host = 8" "childNodes demo_host el = []"
  "devicePixelRatio demo_host = 3" "listeners demo_host = []"
  "resolve demo_host (Selector ''#hero'') = Inr (Some 7)"
  by (simp_all add: demo_host_def)

lemma length_concat_if:
  "length (concat (map (\<lambda>j. if Q j then [g j] else []) xs)) = length (filter Q xs)"
  by (induction xs) auto

lemma length_filter_upt:
  "length (filter Q [a..<b]) = card {j. a \<le> j \<and> j < b \<and> Q j}"
proof -
  have "card {j. a \<le> j \<and> j < b \<and> Q j} = card (set (filter Q [a..<b]))"
    by (rule arg_cong [where f = card]) auto
  also have "\<dots> = length (filter Q [a..<b])"
    by (rule distinct_card) simp
  finally show ?thesis by simp
qed

lemma length_nested_if:
  "length (concat (map (\<lambda>i. concat (map (\<lambda>j. if Q i j then [g i j] else []) (ys i))) xs))
     = sum_list (map (\<lambda>i. length (filter (Q i) (ys i))) xs)"
  by (induction xs) (simp_all add: length_concat_if)

lemma card_pairs:
  fixes P :: "nat \<Rightarrow> nat \<Rightarrow> bool"
  shows "card {(i, j). i < j \<and> j < n \<and> P i j} = (\<Sum>i<n. card {j. Suc i \<le> j \<and> j < n \<and> P i j})"
proof -
  have "{(i, j). i < j \<and> j < n \<and> P i j} = (SIGMA i:{..<n}. {j. Suc i \<le> j \<and> j < n \<and> P i j})"
    by auto
  moreover have "card (SIGMA i:{..<n}. {j. Suc i \<le> j \<and> j < n \<and> P i j})
      = (\<Sum>i\<in>{..<n}. card {j. Suc i \<le> j \<and> j < n \<and> P i j})"
    by (rule card_SigmaI) auto
  ultimately show ?thesis by simp
qed

lemma length_updateConnections:
  "length (updateConnections ns d m) = close_pairs ns d"
proof -
  let ?P = "\<lambda>i j. js_less (distanceTo (position (ns ! i)) (position (ns ! j))) d"
  have "length (updateConnections ns d m)
      = sum_list (map (\<lambda>i. length (filter (?P i) [i + 1..<length ns])) [0..<length ns])"
    unfolding updateConnections_def by (rule length_nested_if)
  also have "\<dots> = (\<Sum>i<length ns. card {j. Suc i \<le> j \<and> j < length ns \<and> ?P i j})"
    by (simp add: length_filter_upt interv_sum_list_conv_sum_set_nat atLeast0LessThan)
  also have "\<dots> = close_pairs ns d"
    unfolding close_pairs_def by (rule card_pairs [symmetric])
  finally show ?thesis .
qed

lemma sum_gaps: "(\<Sum>i<n. n - Suc i) = n choose 2"
proof (induction n)
  case 0 then show ?case by simp
next
  case (Suc n)
  have "(\<Sum>i<Suc n. Suc n - Suc i) = (\<Sum>i<n. n - i)"
    by simp
  also have "\<dots> = (\<Sum>i<n. Suc (n - Suc i))"
    by (rule sum.cong) (auto simp: Suc_diff_Suc)
  also have "\<dots> = (\<Sum>i<n. n - Suc i) + n"
    by (simp add: sum_Suc)
  also have "\<dots> = Suc n choose 2"
    using Suc.IH by (simp add: numeral_2_eq_2)
  finally show ?case .
qed

lemma updateConnections_bound:
  "length (updateConnections ns d m) \<le> length ns choose 2"
proof -
  let ?P = "\<lambda>i j. js_less (distanceTo (position (ns ! i)) (position (ns ! j))) d"
  have "length (updateConnections ns d m)
      = sum_list (map (\<lambda>i. length (filter (?P i) [i + 1..<length ns])) [0..<length ns])"
    unfolding updateConnections_def by (rule length_nested_if)
  also have "\<dots> = (\<Sum>i<length ns. length (filter (?P i) [i + 1..<length ns]))"
    by (simp add: interv_sum_list_conv_sum_set_nat atLeast0LessThan)
  also have "\<dots> \<le> (\<Sum>i<length ns. length ns - Suc i)"
  proof (rule sum_mono)
    fix i
    have "length (filter (?P i) [i + 1..<length ns]) \<le> length [i + 1..<length ns]"
      by (rule length_filter_le)
    then show "length (filter (?P i) [i + 1..<length ns]) \<le> length ns - Suc i" by simp
  qed
  finally show ?thesis by (simp add: sum_gaps)
qed

lemma close_pairs_bound: "close_pairs ns d \<le> length ns choose 2"
  using updateConnections_bound [of ns d undefined]
  by (simp add: length_updateConnections)

lemma calm_step: "calm p v \<Longrightarrow> calm (p + v) (bounce (p + v) v)"
  unfolding calm_def bounce_def by (auto simp: abs_if split: if_splits)

lemma calm_bound: "calm p v \<Longrightarrow> \<bar>p\<bar> < 2.005"
  unfolding calm_def by (auto simp: abs_if split: if_splits)

lemma calm_start: "- 2 < p \<Longrightarrow> p < 2 \<Longrightarrow> \<bar>v\<bar> < 0.005 \<Longrightarrow> calm p v"
  unfolding calm_def by auto

lemma calm_node_bound:
  "calm_node nd \<Longrightarrow>
     \<bar>vx (position nd)\<bar> < 2.005 \<and> \<bar>vy (position nd)\<bar> < 2.005 \<and> \<bar>vz (position nd)\<bar> < 2.005"
  unfolding calm_node_def using calm_bound by blast

lemma move_node_calm: "calm_node nd \<Longrightarrow> calm_node (move_node nd)"
  by (simp add: calm_node_def move_node_def Vector3_def Let_def calm_step)

lemma animate_network_step:
  assumes "stage this = Some (cam, r, NetworkScene ns gy m ls ly)"
    and "animate this h = Inr (this', h')"
  shows "\<exists>r' gy' ls' ly'.
           stage this' = Some (cam, r', NetworkScene (map move_node ns) gy' m ls' ly')"
  using assms
  by (auto simp: animate_def animate_network_def Let_def split: sum.splits prod.splits if_splits)

lemma frames_calm:
  assumes "frames n this h = Inr (this', h')"
    and "stage this = Some (cam, r, NetworkScene ns gy m ls ly)"
    and "\<forall>nd \<in> set ns. calm_node nd"
  shows "\<exists>r' ns' gy' ls' ly'.
           stage this' = Some (cam, r', NetworkScene ns' gy' m ls' ly')
           \<and> length ns' = length ns \<and> (\<forall>nd \<in> set ns'. calm_node nd)"
  using assms
proof (induction n arbitrary: this h r ns gy ls ly)
  case 0
  then show ?case by auto
next
  case (Suc n)
  from Suc.prems(1) obtain this1 h1 where a: "animate this h = Inr (this1, h1)"
    and f: "frames n this1 h1 = Inr (this', h')"
    by (auto split: sum.splits)
  from animate_network_step [OF Suc.prems(2) a] obtain r1 gy1 ls1 ly1 where
    s1: "stage this1 = Some (cam, r1, NetworkScene (map move_node ns) gy1 m ls1 ly1)"
    by blast
  have c1: "\<forall>nd \<in> set (map move_node ns). calm_node nd"
    using Suc.prems(3) by (auto simp: move_node_calm)
  from Suc.IH [OF f s1 c1] show ?case by simp
qed

lemma fits_reads: "fits e sc \<Longrightarrow> fits e sc' \<Longrightarrow> reads sc' = reads sc"
  by (cases sc; cases sc') (auto simp: fits_def)

lemma frames_total:
  assumes "stage this = Some (cam, r, sc)" and "\<forall>k \<in> set (reads sc). options this k \<noteq> None"
    and "fits e sc"
  shows "\<exists>this' h'. frames n this h = Inr (this', h')"
  using assms
proof (induction n arbitrary: this h r sc)
  case 0
  then show ?case by simp
next
  case (Suc n)
  from animate_total [OF Suc.prems, of h] obtain this1 h1 sc1 where
    a: "animate this h = Inr (this1, h1)"
    and s: "stage this1 = Some (cam, render sc1 cam r, sc1)" "fits e sc1"
      "options this1 = options this"
    by blast
  have "\<forall>k \<in> set (reads sc1). options this1 k \<noteq> None"
    using Suc.prems(2,3) s fits_reads [of e sc sc1] by simp
  from Suc.IH [OF s(1) this s(2)] a show ?case by simp
qed





lemma ease_turn:
  "vx (rotation (ease (0, 0) (turn a b c ob))) = 0.95 * (vx (rotation ob) + a)"
  "vy (rotation (ease (0, 0) (turn a b c ob))) = 0.95 * (vy (rotation ob) + b)"
  by (simp_all add: ease_def turn_def Vector3_def field_simps)

lemma animate_sphere_step:
  assumes "stage this = Some (cam, r, SphereScene sp inner)" and "mouse this = (0, 0)"
    and "to_number (options this ''rotationSpeed'') = Inr s"
    and "animate this h = Inr (this', h')"
  shows "\<exists>r' inner'. stage this' = Some (cam, r', SphereScene (ease (0, 0) (turn (s * 0.5) s 0 sp)) inner')
           \<and> targetRotation this' = (0, 0) \<and> mouse this' = (0, 0) \<and> options this' = options this"
  using assms
  by (auto simp: animate_def animate_sphere_def target_of_def Let_def split: sum.splits prod.splits)

lemma animate_knot_step:
  assumes "stage this = Some (cam, r, KnotScene m)" and "mouse this = (0, 0)"
    and "animate this h = Inr (this', h')"
  shows "\<exists>r'. stage this' = Some (cam, r', KnotScene (ease (0, 0) (turn 0.003 0.005 0 m)))
           \<and> targetRotation this' = (0, 0) \<and> mouse this' = (0, 0) \<and> options this' = options this"
  using assms
  by (auto simp: animate_def animate_knot_def target_of_def Let_def split: sum.splits prod.splits)

lemma frames_sphere:
  assumes "frames n this h = Inr (this', h')"
    and "stage this = Some (cam, r, SphereScene sp inner)" and "mouse this = (0, 0)"
    and "to_number (options this ''rotationSpeed'') = Inr s"
  shows "\<exists>r' sp' inner'. stage this' = Some (cam, r', SphereScene sp' inner')
           \<and> (n = 0 \<or> targetRotation this' = (0, 0))
           \<and> vx (rotation sp') - 9.5 * s = 0.95 ^ n * (vx (rotation sp) - 9.5 * s)
           \<and> vy (rotation sp') - 19 * s = 0.95 ^ n * (vy (rotation sp) - 19 * s)"
  using assms
proof (induction n arbitrary: this h r sp inner)
  case 0
  then show ?case by auto
next
  case (Suc n)
  from Suc.prems(1) obtain this1 h1 where a: "animate this h = Inr (this1, h1)"
    and f: "frames n this1 h1 = Inr (this', h')"
    by (auto split: sum.splits)
  let ?sp = "ease (0, 0) (turn (s * 0.5) s 0 sp)"
  from animate_sphere_step [OF Suc.prems(2,3,4) a] obtain r1 inner1 where
    s1: "stage this1 = Some (cam, r1, SphereScene ?sp inner1)"
    and t1: "targetRotation this1 = (0, 0)" and m1: "mouse this1 = (0, 0)"
    and o1: "options this1 = options this"
    by blast
  from Suc.IH [OF f s1 m1] o1 Suc.prems(4) obtain r' sp' inner' where
    s': "stage this' = Some (cam, r', SphereScene sp' inner')"
    and t': "n = 0 \<or> targetRotation this' = (0, 0)"
    and x: "vx (rotation sp') - 9.5 * s = 0.95 ^ n * (vx (rotation ?sp) - 9.5 * s)"
    and y: "vy (rotation sp') - 19 * s = 0.95 ^ n * (vy (rotation ?sp) - 19 * s)"
    by auto
  have "targetRotation this' = (0, 0)"
  proof (cases "n = 0")
    case True
    with f t1 show ?thesis by simp
  next
    case False
    with t' show ?thesis by simp
  qed
  moreover have "vx (rotation sp') - 9.5 * s = 0.95 ^ Suc n * (vx (rotation sp) - 9.5 * s)"
    using x by (simp add: ease_turn algebra_simps)
  moreover have "vy (rotation sp') - 19 * s = 0.95 ^ Suc n * (vy (rotation sp) - 19 * s)"
    using y by (simp add: ease_turn algebra_simps)
  ultimately show ?case using s' by simp
qed

lemma frames_knot:
  assumes "frames n this h = Inr (this', h')"
    and "stage this = Some (cam, r, KnotScene m)" and "mouse this = (0, 0)"
  shows "\<exists>r' m'. stage this' = Some (cam, r', KnotScene m')
           \<and> (n = 0 \<or> targetRotation this' = (0, 0))
           \<and> vx (rotation m') - 0.057 = 0.95 ^ n * (vx (rotation m) - 0.057)
           \<and> vy (rotation m') - 0.095 = 0.95 ^ n * (vy (rotation m) - 0.095)"
  using assms
proof (induction n arbitrary: this h r m)
  case 0
  then show ?case by auto
next
  case (Suc n)
  from Suc.prems(1) obtain this1 h1 where a: "animate this h = Inr (this1, h1)"
    and f: "frames n this1 h1 = Inr (this', h')"
    by (auto split: sum.splits)
  let ?m = "ease (0, 0) (turn 0.003 0.005 0 m)"
  from animate_knot_step [OF Suc.prems(2,3) a] obtain r1 where
    s1: "stage this1 = Some (cam, r1, KnotScene ?m)"
    and t1: "targetRotation this1 = (0, 0)" and m1: "mouse this1 = (0, 0)"
    by blast
  from Suc.IH [OF f s1 m1] obtain r' m' where
    s': "stage this' = Some (cam, r', KnotScene m')"
    and t': "n = 0 \<or> targetRotation this' = (0, 0)"
    and x: "vx (rotation m') - 0.057 = 0.95 ^ n * (vx (rotation ?m) - 0.057)"
    and y: "vy (rotation m') - 0.095 = 0.95 ^ n * (vy (rotation ?m) - 0.095)"
    by auto
  have "targetRotation this' = (0, 0)"
  proof (cases "n = 0")
    case True
    with f t1 show ?thesis by simp
  next
    case False
    with t' show ?thesis by simp
  qed
  moreover have "vx (rotation m') - 0.057 = 0.95 ^ Suc n * (vx (rotation m) - 0.057)"
    using x by (simp add: ease_turn algebra_simps)
  moreover have "vy (rotation m') - 0.095 = 0.95 ^ Suc n * (vy (rotation m) - 0.095)"
    using y by (simp add: ease_turn algebra_simps)
  ultimately show ?case using s' by simp
qed

lemma recognised_keys:
  "''radius'' \<in> recognised AnimatedSphere" "''color'' \<in> recognised AnimatedSphere"
  "''wireframe'' \<in> recognised AnimatedSphere" "''rotationSpeed'' \<in> recognised AnimatedSphere"
  "''mouseInfluence'' \<in> recognised AnimatedSphere" "''segments'' \<in> recognised AnimatedSphere"
  "''nodeCount'' \<in> recognised NeuralNetwork" "''connectionDistance'' \<in> recognised NeuralNetwork"
  "''nodeColor'' \<in> recognised NeuralNetwork" "''lineColor'' \<in> recognised NeuralNetwork"
  "''rotationSpeed'' \<in> recognised NeuralNetwork"
  "''cubeCount'' \<in> recognised DataCube" "''rotationSpeed'' \<in> recognised DataCube"
  "''cubeColor'' \<in> recognised DataCube"
  "''color'' \<in> recognised GeometricAnimation" "''mouseInfluence'' \<in> recognised GeometricAnimation"
  "''size'' \<in> recognised GeometricAnimation"
  "''color'' \<in> recognised (ProjectAnimation p)"
  by (simp_all add: recognised_def)

lemma unread:
  "dom x \<inter> recognised e = {} \<Longrightarrow> k \<in> recognised e \<Longrightarrow> (opts ++ x) k = opts k"
  by (auto simp: map_add_def split: option.splits)

lemma this_options_extra:
  assumes "dom x \<inter> recognised e = {}"
  shows "this_options e (opts ++ x) = this_options e opts ++ x"
proof (cases e)
  case AnimatedSphere
  with assms show ?thesis
    by (simp add: unread [where e = AnimatedSphere] recognised_keys)
next
  case NeuralNetwork
  with assms show ?thesis
    by (simp add: unread [where e = NeuralNetwork] recognised_keys)
next
  case DataCube
  with assms show ?thesis
    by (simp add: unread [where e = DataCube] recognised_keys)
next
  case GeometricAnimation
  with assms show ?thesis
    by (simp add: unread [where e = GeometricAnimation] recognised_keys)
next
  case (ProjectAnimation p)
  with assms show ?thesis
    by (simp add: unread [where e = "ProjectAnimation p"] recognised_keys)
qed


lemma this_options_default:
  assumes "opts k = None"
  shows "this_options e opts k = map_of (defaults e) k"
proof (cases e)
  case AnimatedSphere
  consider "k = ''color''" | "k = ''wireframe''" | "k = ''segments''" | "k = ''radius''"
    | "k = ''rotationSpeed''" | "k = ''mouseInfluence''"
    | "k \<noteq> ''color''" "k \<noteq> ''wireframe''" "k \<noteq> ''segments''" "k \<noteq> ''radius''"
      "k \<noteq> ''rotationSpeed''" "k \<noteq> ''mouseInfluence''"
    by blast
  then show ?thesis
    using assms AnimatedSphere by cases (simp_all add: map_add_def js_or_def)
next
  case NeuralNetwork
  consider "k = ''nodeCount''" | "k = ''connectionDistance''" | "k = ''nodeColor''"
    | "k = ''lineColor''" | "k = ''rotationSpeed''"
    | "k \<noteq> ''nodeCount''" "k \<noteq> ''connectionDistance''" "k \<noteq> ''nodeColor''"
      "k \<noteq> ''lineColor''" "k \<noteq> ''rotationSpeed''"
    by blast
  then show ?thesis
    using assms NeuralNetwork by cases (simp_all add: map_add_def js_or_def)
next
  case DataCube
  consider "k = ''cubeCount''" | "k = ''cubeColor''" | "k = ''rotationSpeed''"
    | "k \<noteq> ''cubeCount''" "k \<noteq> ''cubeColor''" "k \<noteq> ''rotationSpeed''"
    by blast
  then show ?thesis
    using assms DataCube by cases (simp_all add: map_add_def js_or_def)
next
  case GeometricAnimation
  consider "k = ''color''" | "k = ''size''" | "k = ''mouseInfluence''"
    | "k \<noteq> ''color''" "k \<noteq> ''size''" "k \<noteq> ''mouseInfluence''"
    by blast
  then show ?thesis
    using assms GeometricAnimation by cases (simp_all add: map_add_def js_or_def)
next
  case (ProjectAnimation p)
  consider "k = ''color''" | "k \<noteq> ''color''"
    by blast
  then show ?thesis
    using assms ProjectAnimation by cases (simp_all add: map_add_def js_or_def)
qed

lemma with_extra_fields [simp]:
  "container (with_extra x this) = container this" "effect (with_extra x this) = effect this"
  "stage (with_extra x this) = stage this" "mouse (with_extra x this) = mouse this"
  "targetRotation (with_extra x this) = targetRotation this"
  by (simp_all add: with_extra_def)

lemma with_extra_options:
  "dom x \<inter> recognised (effect this) = {} \<Longrightarrow> k \<in> recognised (effect this) \<Longrightarrow>
     options (with_extra x this) k = options this k"
  by (simp add: with_extra_def unread)

lemma update_extra:
  assumes "fits (effect this) sc" and "dom x \<inter> recognised (effect this) = {}"
  shows "update (with_extra x this) sc h = update this sc h"
proof (cases sc)
  case (SphereScene sp inner)
  with assms(1) have e: "effect this = AnimatedSphere" by (simp add: fits_def)
  have k: "options (with_extra x this) ''rotationSpeed'' = options this ''rotationSpeed''"
    "options (with_extra x this) ''mouseInfluence'' = options this ''mouseInfluence''"
    using assms(2) by (simp_all add: with_extra_options e recognised_keys)
  show ?thesis
    unfolding SphereScene update.simps animate_sphere_def k with_extra_fields by (rule refl)
next
  case (NetworkScene ns gy m ls ly)
  with assms(1) have e: "effect this = NeuralNetwork" by (simp add: fits_def)
  have k: "options (with_extra x this) ''rotationSpeed'' = options this ''rotationSpeed''"
    "options (with_extra x this) ''connectionDistance'' = options this ''connectionDistance''"
    using assms(2) by (simp_all add: with_extra_options e recognised_keys)
  show ?thesis
    unfolding NetworkScene update.simps animate_network_def k with_extra_fields by (rule refl)
next
  case (CubeScene cs center sy)
  with assms(1) have e: "effect this = DataCube" by (simp add: fits_def)
  have k: "options (with_extra x this) ''rotationSpeed'' = options this ''rotationSpeed''"
    using assms(2) by (simp_all add: with_extra_options e recognised_keys)
  show ?thesis
    unfolding CubeScene update.simps animate_cubes_def k with_extra_fields by (rule refl)
next
  case (KnotScene m)
  with assms(1) have e: "effect this = GeometricAnimation" by (simp add: fits_def)
  have k: "options (with_extra x this) ''mouseInfluence'' = options this ''mouseInfluence''"
    using assms(2) by (simp_all add: with_extra_options e recognised_keys)
  show ?thesis
    unfolding KnotScene update.simps animate_knot_def k with_extra_fields by (rule refl)
qed simp_all

lemma with_extra_update:
  "with_extra x (this\<lparr>targetRotation := tr, stage := s\<rparr>)
     = (with_extra x this)\<lparr>targetRotation := tr, stage := s\<rparr>"
  "with_extra x (this\<lparr>stage := s\<rparr>) = (with_extra x this)\<lparr>stage := s\<rparr>"
  "with_extra x (this\<lparr>targetRotation := tr\<rparr>) = (with_extra x this)\<lparr>targetRotation := tr\<rparr>"
  "with_extra x (this\<lparr>mouse := m\<rparr>) = (with_extra x this)\<lparr>mouse := m\<rparr>"
  by (simp_all add: with_extra_def)

lemma animate_extra:
  assumes "well_staged this" and "dom x \<inter> recognised (effect this) = {}"
  shows "animate (with_extra x this) h = lift_extra x (animate this h)"
proof (cases "stage this")
  case None
  then show ?thesis by (simp add: animate_def lift_extra_def)
next
  case (Some s)
  obtain cam r sc where s: "s = (cam, r, sc)" by (cases s)
  with Some assms(1) have "fits (effect this) sc" by (simp add: well_staged_def)
  from update_extra [OF this assms(2)] Some s show ?thesis
    by (auto simp: animate_def lift_extra_def with_extra_update split: sum.splits)
qed

lemma update_class:
  "update this sc h = Inr (tr, sc', h') \<Longrightarrow> scene_class sc' = scene_class sc"
  by (cases sc)
     (auto simp: animate_sphere_def animate_knot_def animate_network_def animate_cubes_def
        update_particles_def update_machinery_def update_documents_def update_helix_def
        update_shield_def update_pipeline_def Let_def split: sum.splits prod.splits)

lemma animate_staged:
  assumes "animate this h = Inr (this', h')" and "well_staged this"
  shows "well_staged this' \<and> effect this' = effect this"
  using assms
  by (auto simp: animate_def well_staged_def fits_def dest: update_class
        split: option.splits sum.splits prod.splits)

lemma invoke_extra:
  assumes "well_staged this" and "dom x \<inter> recognised (effect this) = {}"
  shows "invoke c (with_extra x this) h = lift_extra x (invoke c this h)"
proof (cases c)
  case Animate
  with animate_extra [OF assms] show ?thesis by simp
next
  case OnResize
  then show ?thesis
    by (auto simp: onResize_def lift_extra_def with_extra_update Let_def split: option.splits)
next
  case (OnMouseMove a b)
  then show ?thesis
    by (auto simp: onMouseMove_def lift_extra_def with_extra_update)
next
  case Destroy
  then show ?thesis
    by (auto simp: destroy_def lift_extra_def with_extra_update Let_def split: option.splits)
qed

lemma invoke_staged:
  assumes "invoke c this h = Inr (this', h')" and "well_staged this"
  shows "well_staged this' \<and> effect this' = effect this"
proof (cases c)
  case Animate
  with assms animate_staged show ?thesis by simp
next
  case OnResize
  with assms show ?thesis
    by (auto simp: onResize_def well_staged_def Let_def split: option.splits sum.splits)
next
  case (OnMouseMove a b)
  with assms show ?thesis
    by (auto simp: onMouseMove_def well_staged_def split: if_splits sum.splits option.splits)
next
  case Destroy
  with assms show ?thesis
    by (auto simp: destroy_def well_staged_def Let_def split: if_splits option.splits)
qed

lemma run_extra:
  assumes "well_staged this" and "dom x \<inter> recognised (effect this) = {}"
  shows "run cs (with_extra x this) h = lift_extra x (run cs this h)"
  using assms
proof (induction cs arbitrary: this h)
  case Nil
  then show ?case by (simp add: lift_extra_def)
next
  case (Cons a cs)
  obtain env c where a: "a = (env, c)" by (cases a)
  show ?case
  proof (cases "invoke c this (env h)")
    case (Inl e)
    with a invoke_extra [OF Cons.prems, of c "env h"] show ?thesis
      by (simp add: lift_extra_def)
  next
    case (Inr p)
    obtain this' h' where p: "p = (this', h')" by (cases p)
    from invoke_staged [of c this "env h" this' h'] Inr p Cons.prems
    have w: "well_staged this'" "dom x \<inter> recognised (effect this') = {}" by auto
    from a Inr p invoke_extra [OF Cons.prems, of c "env h"] Cons.IH [OF w] show ?thesis
      by (simp add: lift_extra_def)
  qed
qed


lemma createSphere_extra:
  assumes "effect this = AnimatedSphere" and "dom x \<inter> recognised (effect this) = {}"
  shows "createSphere (with_extra x this) = createSphere this"
proof -
  have k: "options (with_extra x this) ''radius'' = options this ''radius''"
    "options (with_extra x this) ''color'' = options this ''color''"
    "options (with_extra x this) ''wireframe'' = options this ''wireframe''"
    using assms(2) by (simp_all add: with_extra_options assms(1) recognised_keys)
  show ?thesis unfolding createSphere_def k by (rule refl)
qed

lemma createNetwork_extra:
  assumes "effect this = NeuralNetwork" and "dom x \<inter> recognised (effect this) = {}"
  shows "createNetwork (with_extra x this) h = createNetwork this h"
proof -
  have k: "options (with_extra x this) ''nodeCount'' = options this ''nodeCount''"
    "options (with_extra x this) ''nodeColor'' = options this ''nodeColor''"
    "options (with_extra x this) ''lineColor'' = options this ''lineColor''"
    using assms(2) by (simp_all add: with_extra_options assms(1) recognised_keys)
  have "make_node (with_extra x this) h = make_node this h"
    unfolding make_node_def k by (rule refl)
  then show ?thesis unfolding createNetwork_def k by simp
qed

lemma createCubes_extra:
  assumes "effect this = DataCube" and "dom x \<inter> recognised (effect this) = {}"
  shows "createCubes (with_extra x this) h = createCubes this h"
proof -
  have k: "options (with_extra x this) ''cubeCount'' = options this ''cubeCount''"
    using assms(2) by (simp_all add: with_extra_options assms(1) recognised_keys)
  show ?thesis unfolding createCubes_def k by (rule refl)
qed

lemma createKnot_extra:
  assumes "effect this = GeometricAnimation" and "dom x \<inter> recognised (effect this) = {}"
  shows "createKnot (with_extra x this) = createKnot this"
proof -
  have k: "options (with_extra x this) ''color'' = options this ''color''"
    using assms(2) by (simp_all add: with_extra_options assms(1) recognised_keys)
  show ?thesis unfolding createKnot_def k by (rule refl)
qed

lemma createGeometry_extra:
  assumes "effect this = ProjectAnimation p" and "dom x \<inter> recognised (effect this) = {}"
  shows "createGeometry p (with_extra x this) h = createGeometry p this h"
proof -
  have k: "options (with_extra x this) ''color'' = options this ''color''"
    using assms(2) by (simp_all add: with_extra_options assms(1) recognised_keys)
  show ?thesis
    by (cases p)
       (simp_all add: createParticleField_def createMachinery_def createDocumentNodes_def
          createHelix_def createShield_def createPipeline_def k)
qed

lemma createSphere_fits: "createSphere this = Inr sc \<Longrightarrow> fits AnimatedSphere sc"
  by (auto simp: createSphere_def fits_def split: sum.splits)

lemma init_extra:
  assumes "dom x \<inter> recognised (effect this) = {}"
  shows "init (with_extra x this) h = lift_extra x (init this h)"
proof (cases "container this")
  case None
  then show ?thesis by (simp add: init_def lift_extra_def)
next
  case (Some el)
  show ?thesis
  proof (cases "effect this")
    case AnimatedSphere
    show ?thesis
    proof (cases "mount 50 4 el h")
      case (Inl err)
      with Some AnimatedSphere show ?thesis by (simp add: init_def init_sphere_def lift_extra_def)
    next
      case (Inr m)
      obtain cam r h1 where m: "m = (cam, r, h1)" by (cases m)
      show ?thesis
      proof (cases "createSphere this")
        case (Inl err)
        with Some AnimatedSphere Inr m createSphere_extra [OF AnimatedSphere assms] show ?thesis
          by (simp add: init_def init_sphere_def lift_extra_def)
      next
        case sc: (Inr sc)
        have w: "well_staged (this\<lparr>stage := Some (cam, r, sc)\<rparr>)"
          using createSphere_fits [OF sc] AnimatedSphere by (simp add: well_staged_def)
        from animate_extra [OF w, of x] assms Some AnimatedSphere Inr m sc
          createSphere_extra [OF AnimatedSphere assms]
        show ?thesis
          by (simp add: init_def init_sphere_def with_extra_update)
      qed
    qed
  next
    case NeuralNetwork
    show ?thesis
    proof (cases "mount 60 5 el h")
      case (Inl err)
      with Some NeuralNetwork show ?thesis by (simp add: init_def init_network_def lift_extra_def)
    next
      case (Inr m)
      obtain cam r h1 where m: "m = (cam, r, h1)" by (cases m)
      obtain sc h2 where c: "createNetwork this h1 = (sc, h2)" by (cases "createNetwork this h1")
      have w: "well_staged (this\<lparr>stage := Some (cam, r, sc)\<rparr>)"
        using create_childNodes(1) [OF c] NeuralNetwork by (simp add: well_staged_def)
      from animate_extra [OF w, of x] assms Some NeuralNetwork Inr m c
        createNetwork_extra [OF NeuralNetwork assms]
      show ?thesis
        by (simp add: init_def init_network_def with_extra_update)
    qed
  next
    case DataCube
    show ?thesis
    proof (cases "mount 50 6 el h")
      case (Inl err)
      with Some DataCube show ?thesis by (simp add: init_def init_cubes_def lift_extra_def)
    next
      case (Inr m)
      obtain cam r h1 where m: "m = (cam, r, h1)" by (cases m)
      obtain sc h2 where c: "createCubes this h1 = (sc, h2)" by (cases "createCubes this h1")
      have w: "well_staged (this\<lparr>stage := Some (cam, r, sc)\<rparr>)"
        using create_childNodes(2) [OF c] DataCube by (simp add: well_staged_def)
      from animate_extra [OF w, of x] assms Some DataCube Inr m c
        createCubes_extra [OF DataCube assms]
      show ?thesis
        by (simp add: init_def init_cubes_def with_extra_update)
    qed
  next
    case GeometricAnimation
    show ?thesis
    proof (cases "mount 50 5 el h")
      case (Inl err)
      with Some GeometricAnimation show ?thesis
        by (simp add: init_def init_geometric_def lift_extra_def)
    next
      case (Inr m)
      obtain cam r h1 where m: "m = (cam, r, h1)" by (cases m)
      have w: "well_staged (this\<lparr>stage := Some (cam, r, createKnot this)\<rparr>)"
        using createKnot_ok [of this] GeometricAnimation by (simp add: well_staged_def)
      from animate_extra [OF w, of x] assms Some GeometricAnimation Inr m
        createKnot_extra [OF GeometricAnimation assms]
      show ?thesis
        by (simp add: init_def init_geometric_def with_extra_update)
    qed
  next
    case (ProjectAnimation p)
    show ?thesis
    proof (cases "mount 50 5 el h")
      case (Inl err)
      with Some ProjectAnimation show ?thesis
        by (simp add: init_def init_project_def lift_extra_def)
    next
      case (Inr m)
      obtain cam r h1 where m: "m = (cam, r, h1)" by (cases m)
      let ?h = "listen ''mousemove'' ''onMouseMove'' (listen ''resize'' ''onResize'' h1)"
      obtain sc h2 where c: "createGeometry p this ?h = (sc, h2)"
        by (cases "createGeometry p this ?h")
      have w: "well_staged (this\<lparr>stage := Some (cam, r, sc)\<rparr>)"
        using create_childNodes(3) [OF c] ProjectAnimation by (simp add: well_staged_def)
      from animate_extra [OF w, of x] assms Some ProjectAnimation Inr m c
        createGeometry_extra [OF ProjectAnimation assms]
      show ?thesis
        by (simp add: init_def init_project_def with_extra_update)
    qed
  qed
qed


lemma init_shape:
  assumes "init this h = Inr (this', h')"
  shows "\<exists>cam r sc h2. fits (effect this) sc
           \<and> animate (this\<lparr>stage := Some (cam, r, sc)\<rparr>) h2 = Inr (this', h')"
proof (cases "effect this")
  case AnimatedSphere
  with assms obtain cam r h2 sc where "createSphere this = Inr sc"
    and a: "animate (this\<lparr>stage := Some (cam, r, sc)\<rparr>) h2 = Inr (this', h')"
    by (auto simp: init_def init_sphere_def split: option.splits sum.splits prod.splits)
  then have "fits (effect this) sc"
    using createSphere_fits AnimatedSphere by simp
  with a show ?thesis by blast
next
  case NeuralNetwork
  with assms obtain cam r h1 h2 h3 sc where "createNetwork this h1 = (sc, h2)"
    and a: "animate (this\<lparr>stage := Some (cam, r, sc)\<rparr>) h3 = Inr (this', h')"
    by (auto simp: init_def init_network_def split: option.splits sum.splits prod.splits)
  then have "fits (effect this) sc"
    using create_childNodes(1) NeuralNetwork by simp
  with a show ?thesis by blast
next
  case DataCube
  with assms obtain cam r h1 h2 h3 sc where "createCubes this h1 = (sc, h2)"
    and a: "animate (this\<lparr>stage := Some (cam, r, sc)\<rparr>) h3 = Inr (this', h')"
    by (auto simp: init_def init_cubes_def split: option.splits sum.splits prod.splits)
  then have "fits (effect this) sc"
    using create_childNodes(2) DataCube by simp
  with a show ?thesis by blast
next
  case GeometricAnimation
  with assms obtain cam r h2 where
    a: "animate (this\<lparr>stage := Some (cam, r, createKnot this)\<rparr>) h2 = Inr (this', h')"
    by (auto simp: init_def init_geometric_def split: option.splits sum.splits prod.splits)
  have "fits (effect this) (createKnot this)"
    using createKnot_ok [of this] GeometricAnimation by simp
  with a show ?thesis by blast
next
  case (ProjectAnimation p)
  with assms obtain cam r h1 h2 sc where "createGeometry p this h1 = (sc, h2)"
    and a: "animate (this\<lparr>stage := Some (cam, r, sc)\<rparr>) h2 = Inr (this', h')"
    by (auto simp: init_def init_project_def split: option.splits sum.splits prod.splits)
  then have "fits (effect this) sc"
    using create_childNodes(3) ProjectAnimation by simp
  with a show ?thesis by blast
qed

lemma init_staged:
  assumes "init this h = Inr (this', h')"
  shows "well_staged this' \<and> effect this' = effect this"
proof -
  from init_shape [OF assms] obtain cam r sc h2 where f: "fits (effect this) sc"
     and a: "animate (this\<lparr>stage := Some (cam, r, sc)\<rparr>) h2 = Inr (this', h')"
    by blast
  from f have "well_staged (this\<lparr>stage := Some (cam, r, sc)\<rparr>)"
    by (simp add: well_staged_def)
  from animate_staged [OF a this] show ?thesis by simp
qed

lemma constructor_staged:
  assumes "constructor e c opts h = Inr (this, h')"
  shows "well_staged this \<and> effect this = e"
proof (cases "resolve h c")
  case (Inl err)
  with assms show ?thesis by (simp add: constructor_def)
next
  case (Inr k)
  show ?thesis
  proof (cases k)
    case None
    with Inr assms show ?thesis by (auto simp: constructor_def blank_def well_staged_def)
  next
    case (Some el)
    with Inr assms show ?thesis
      by (cases e) (auto simp: constructor_def blank_def well_staged_def dest!: init_staged)
  qed
qed

lemma constructor_extra:
  assumes "dom x \<inter> recognised e = {}"
  shows "constructor e c (opts ++ x) h = lift_extra x (constructor e c opts h)"
proof (cases "resolve h c")
  case (Inl err)
  then show ?thesis by (simp add: constructor_def lift_extra_def)
next
  case (Inr k)
  show ?thesis
  proof (cases k)
    case None
    with Inr show ?thesis by (simp add: constructor_def lift_extra_def with_extra_def blank_def)
  next
    case (Some el)
    define mk where "mk ops = (blank e)\<lparr>container := Some el, options := this_options e ops\<rparr>" for ops
    have c: "constructor e c ops h =
        (case e of
           AnimatedSphere \<Rightarrow> init ((mk ops)\<lparr>mouse := (0, 0), targetRotation := (0, 0)\<rparr>) h
         | NeuralNetwork \<Rightarrow> Inr (mk ops, h) | DataCube \<Rightarrow> Inr (mk ops, h)
         | GeometricAnimation \<Rightarrow> init ((mk ops)\<lparr>mouse := (0, 0), targetRotation := (0, 0)\<rparr>) h
         | ProjectAnimation p \<Rightarrow> init ((mk ops)\<lparr>mouse := (0, 0)\<rparr>) h)" for ops
      using Inr Some by (cases e) (simp_all add: constructor_def mk_def Let_def)
    have t: "mk (opts ++ x) = with_extra x (mk opts)"
      by (simp add: mk_def with_extra_def this_options_extra [OF assms])
    have d: "dom x \<inter> recognised (effect ((mk opts)\<lparr>mouse := m, targetRotation := tr\<rparr>)) = {}"
      "dom x \<inter> recognised (effect ((mk opts)\<lparr>mouse := m\<rparr>)) = {}" for m tr
      using assms by (simp_all add: mk_def blank_def)
    have u: "(with_extra x T)\<lparr>mouse := m\<rparr> = with_extra x (T\<lparr>mouse := m\<rparr>)"
      "(with_extra x T)\<lparr>targetRotation := tr\<rparr> = with_extra x (T\<lparr>targetRotation := tr\<rparr>)"
      for T m tr
      by (simp_all add: with_extra_def)
    show ?thesis
      unfolding c t u
      by (cases e) (simp_all add: init_extra [OF d(1)] init_extra [OF d(2)] lift_extra_def)
  qed
qed

lemma launch_extra:
  assumes "dom x \<inter> recognised e = {}"
  shows "launch e c (opts ++ x) h env cs = lift_extra x (launch e c opts h env cs)"
proof (cases "constructor e c opts h")
  case (Inl err)
  with constructor_extra [OF assms, of c opts h] show ?thesis
    by (simp add: launch_def lift_extra_def)
next
  case (Inr p)
  obtain this h1 where p: "p = (this, h1)" by (cases p)
  from constructor_staged [of e c opts h this h1] Inr p assms
  have w: "well_staged this" and d: "dom x \<inter> recognised (effect this) = {}" by auto
  from constructor_extra [OF assms, of c opts h] Inr p
  have cx: "constructor e c (opts ++ x) h = Inr (with_extra x this, h1)"
    by (simp add: lift_extra_def)
  show ?thesis
  proof (cases "stage this = None \<and> container this \<noteq> None")
    case False
    with Inr p cx run_extra [OF w d, of cs h1] show ?thesis
      by (auto simp: launch_def)
  next
    case True
    show ?thesis
    proof (cases "init this (env h1)")
      case (Inl err)
      with True Inr p cx init_extra [OF d, of "env h1"] show ?thesis
        by (simp add: launch_def lift_extra_def)
    next
      case i: (Inr q)
      obtain this' h2 where q: "q = (this', h2)" by (cases q)
      from init_staged [of this "env h1" this' h2] i q d
      have w': "well_staged this'" and d': "dom x \<inter> recognised (effect this') = {}" by auto
      from True Inr p cx i q init_extra [OF d, of "env h1"] run_extra [OF w' d', of cs h2]
      show ?thesis
        by (simp add: launch_def lift_extra_def)
    qed
  qed
qed

lemma observe_lift_extra: "observe (lift_extra x res) = observe res"
  by (auto simp: observe_def lift_extra_def with_extra_def split: sum.splits)

section \<open>Construction without a container\<close>

text \<open>
  C1. For every effect class, a constructor whose container argument is \<open>null\<close>, or a
  selector that matches no element, returns without throwing (the result is \<open>Inr\<close>),
  creates no camera, renderer or scene objects (\<open>stage\<close> stays \<open>None\<close>) and leaves the
  host, and with it the children of every element, as it was.
\<close>

theorem constructor_unresolved_noop:
  assumes "c = Null \<or> (c = Selector s \<and> querySelector h s = Inr None)"
  shows "constructor e c opts h = Inr (blank e, h) \<and> stage (blank e) = None
         \<and> container (blank e) = None"
  using assms by (auto simp: constructor_def blank_def)

theorem constructor_unresolved_noop_witness:
  "constructor NeuralNetwork Null Map.empty demo_host = Inr (blank NeuralNetwork, demo_host)
   \<and> querySelector demo_host ''#missing'' = Inr None
   \<and> constructor (ProjectAnimation FlowPipeline) (Selector ''#missing'') [''color'' \<mapsto> Num 255]
        demo_host
       = Inr (blank (ProjectAnimation FlowPipeline), demo_host)"
proof -
  have q: "querySelector demo_host ''#missing'' = Inr None"
    by (simp add: demo_host_def)
  show ?thesis
    using constructor_unresolved_noop [of Null "''x''" demo_host NeuralNetwork Map.empty]
      constructor_unresolved_noop [of "Selector ''#missing''" "''#missing''" demo_host
         "ProjectAnimation FlowPipeline" "[''color'' \<mapsto> Num 255]"] q
    by simp
qed

section \<open>Construction with a container\<close>

text \<open>
  C2, as stated, fails: the constructors of \<open>NeuralNetwork\<close> and \<open>DataCube\<close> do not call
  \<open>init\<close>. Constructing a network on element \<open>7\<close> returns the bare object and the host
  as it was, the element still without a child.
\<close>

theorem constructor_network_appends_nothing:
  "constructor NeuralNetwork (Element 7) [''nodeCount'' \<mapsto> Num 2] demo_host
     = Inr (demo_network, demo_host)
   \<and> stage demo_network = None \<and> childNodes demo_host 7 = []"
  by (simp add: constructor_def demo_network_def blank_def demo_host_def)

text \<open>
  C2, amended. With a container that resolves and a WebGL context available: every
  constructor but those of \<open>NeuralNetwork\<close> and \<open>DataCube\<close> builds the objects of its
  class and appends exactly one new canvas, the renderer's, to the container before it
  returns, the one frame drawn so far showing those objects. The constructors of
  \<open>NeuralNetwork\<close> and \<open>DataCube\<close> append nothing and build nothing; a later \<open>init\<close>
  does the same work for them.
\<close>

theorem constructor_mounts_once:
  assumes "resolve h c = Inr (Some el)" and "webgl h"
  shows "if e = NeuralNetwork \<or> e = DataCube
         then (\<exists>this. constructor e c opts h = Inr (this, h) \<and> stage this = None
                 \<and> (\<exists>this' h'. init this h = Inr (this', h') \<and> mounted h el this' h'))
         else (\<exists>this' h'. constructor e c opts h = Inr (this', h') \<and> mounted h el this' h')"
proof -
  define this where "this = (blank e)\<lparr>container := Some el, options := this_options e opts\<rparr>"
  have t: "container this = Some el" "options this = this_options (effect this) opts"
    "effect this = e" "stage this = None"
    by (simp_all add: this_def blank_def)
  from init_total [OF t(1) assms(2) t(2)] obtain this' h' where
    i: "init this h = Inr (this', h')" "mounted h el this' h'" by blast
  have c: "constructor e c opts h =
      (case e of NeuralNetwork \<Rightarrow> Inr (this, h) | DataCube \<Rightarrow> Inr (this, h)
       | _ \<Rightarrow> init this h)"
    using assms(1) by (cases e) (simp_all add: constructor_def this_def blank_def)
  show ?thesis
    using c i t(4) by (cases e) auto
qed

theorem constructor_mounts_once_witness:
  "resolve demo_host (Selector ''#hero'') = Inr (Some 7) \<and> webgl demo_host
   \<and> (case constructor (ProjectAnimation FlowPipeline) (Selector ''#hero'') Map.empty demo_host of
        Inl e \<Rightarrow> False
      | Inr (this', h') \<Rightarrow> childNodes h' 7 = [8] \<and> childNodes h' 3 = [] \<and> stage this' \<noteq> None)"
proof -
  have r: "resolve demo_host (Selector ''#hero'') = Inr (Some 7)" and w: "webgl demo_host"
    by (fact demo_host_facts)+
  from constructor_mounts_once [OF r w, of "ProjectAnimation FlowPipeline" Map.empty]
  obtain this' h' where
    c: "constructor (ProjectAnimation FlowPipeline) (Selector ''#hero'') Map.empty demo_host
          = Inr (this', h')"
    and m: "mounted demo_host 7 this' h'"
    by auto
  from m have "childNodes h' 7 = [8]" "childNodes h' 3 = []" "stage this' \<noteq> None"
    by (auto simp: mounted_def demo_host_facts split: option.splits)
  with r w c show ?thesis by simp
qed

section \<open>Teardown\<close>

text \<open>
  C3. A sphere is constructed on element \<open>7\<close> of the demonstration window and then
  destroyed. \<open>init\<close> registered the arrow functions \<open>9\<close> and \<open>10\<close> for \<open>resize\<close> and
  \<open>mousemove\<close>; \<open>destroy\<close> disposes the renderer and detaches the canvas \<open>8\<close>, but both
  listeners are still registered afterwards: \<open>removeEventListener\<close> was given the
  functions of the prototype, which were never registered.
\<close>

theorem destroy_leaves_listeners:
  "case constructor AnimatedSphere (Element 7) Map.empty demo_host of
     Inl e \<Rightarrow> False
   | Inr (this, h) \<Rightarrow>
       listeners h = [(''resize'', Arrow 9 ''onResize''), (''mousemove'', Arrow 10 ''onMouseMove'')]
       \<and> childNodes h 7 = [8]
       \<and> (case destroy this h of
             Inl e \<Rightarrow> False
           | Inr (this', h') \<Rightarrow>
               listeners h' = [(''resize'', Arrow 9 ''onResize''), (''mousemove'', Arrow 10 ''onMouseMove'')]
               \<and> childNodes h' 7 = []
               \<and> (case stage this' of None \<Rightarrow> False | Some (cam, r, sc) \<Rightarrow> disposed r))"
  by (simp add: constructor_def blank_def init_defs mount_def demo_host_def host_ops build_defs
        animate_def animate_sphere_def target_of_def ease_def turn_def render_def destroy_def Let_def)

section \<open>Connections of the network\<close>

text \<open>
  C4, as stated, fails. A frame recomputes the connections only when \<open>Math.random()\<close>
  is below \<open>0.1\<close>. Two nodes at distance 1, threshold 2, \<open>Math.random()\<close> one half: after
  the frame there is still no line, while one pair is closer than the threshold.
\<close>

theorem network_lines_stale:
  "case animate demo_pair demo_host of
     Inl e \<Rightarrow> False
   | Inr (this', h') \<Rightarrow>
      (case stage this' of
         Some (cam, r, NetworkScene ns gy m ls ly) \<Rightarrow>
           length ns = 2 \<and> length ls = 0
           \<and> close_pairs ns (options this' ''connectionDistance'') = 1
       | _ \<Rightarrow> False)"
  by (simp add: length_updateConnections [symmetric, where m = undefined] updateConnections_def
        demo_pair_def on_stage_def node_at_def demo_network_def blank_def demo_host_def host_ops
        Vector3_def js_or_def animate_def animate_network_def move_node_def bounce_def
        distanceTo_def js_less_def render_def Let_def upt_rec)

text \<open>
  C4, amended. One frame of the network keeps the nodes' number and moves each node. If
  the lines were at most \<open>C(n, 2)\<close> before, they are at most \<open>C(n, 2)\<close> after. On a frame
  whose \<open>Math.random()\<close> is below \<open>0.1\<close> the connections are recomputed, and the
  number of lines equals the number of unordered pairs of nodes whose distance, at that
  frame, is strictly below \<open>connectionDistance\<close>; on every other frame the lines are left
  as they were (none before the first recomputation).
\<close>

theorem network_connections:
  assumes "stage this = Some (cam, r, NetworkScene ns gy m ls ly)"
    and "length ls \<le> length ns choose 2"
    and "animate this h = Inr (this', h')"
  shows "\<exists>r' gy' ls' ly'.
           stage this' = Some (cam, r', NetworkScene (map move_node ns) gy' m ls' ly')
           \<and> length ls' \<le> length (map move_node ns) choose 2
           \<and> (if rnd h 0 < 0.1
               then length ls' = close_pairs (map move_node ns) (options this ''connectionDistance'')
               else ls' = ls)"
  using assms
  by (auto simp: animate_def animate_network_def Let_def rnd_def requestAnimationFrame_def
        length_updateConnections close_pairs_bound [of "map move_node ns", simplified]
        split: sum.splits prod.splits if_splits)

theorem network_connections_witness:
  "case animate demo_pair (demo_host\<lparr>random := (\<lambda>k. 0)\<rparr>) of
     Inl e \<Rightarrow> False
   | Inr (this', h') \<Rightarrow>
      (case stage this' of
         Some (cam, r, NetworkScene ns gy m ls ly) \<Rightarrow>
           length ns = 2 \<and> length ls = 1
           \<and> close_pairs ns (options demo_pair ''connectionDistance'') = 1
       | _ \<Rightarrow> False)"
proof -
  let ?H = "demo_host\<lparr>random := (\<lambda>k. 0)\<rparr>"
  let ?ns = "[node_at (Vector3 0 0 0) (Vector3 0 0 0), node_at (Vector3 1 0 0) (Vector3 0 0 0)]"
  let ?m = "line_material (Some (Num 0x8b5cf6)) 0.3"
  have s: "stage demo_pair = Some (demo_camera 60 5, demo_renderer, NetworkScene ?ns 0 ?m [] 0)"
    by (simp add: demo_pair_def on_stage_def)
  have b: "length ([] :: object3d list) \<le> length ?ns choose 2"
    by simp
  have o: "options demo_pair = this_options NeuralNetwork [''nodeCount'' \<mapsto> Num 2]"
    by (simp add: demo_pair_def on_stage_def demo_network_facts)
  from animate_total [OF s, of NeuralNetwork ?H] obtain this' h' where
    a: "animate demo_pair ?H = Inr (this', h')"
    by (auto simp: fits_def o this_options_keys)
  have c: "close_pairs (map move_node ?ns) (options demo_pair ''connectionDistance'') = 1"
    by (simp add: length_updateConnections [symmetric, where m = undefined] updateConnections_def
          o node_at_def Vector3_def js_or_def move_node_def bounce_def distanceTo_def js_less_def
          Let_def upt_rec)
  have "rnd ?H 0 < 0.1"
    by (simp add: rnd_def demo_host_def)
  with network_connections [OF s b a] c obtain r' gy' ls' ly' where
    "stage this' = Some (demo_camera 60 5, r', NetworkScene (map move_node ?ns) gy' ?m ls' ly')"
    "length ls' = 1"
    by auto
  with a c show ?thesis
    by simp
qed

section \<open>The pointer at the centre of the viewport\<close>

text \<open>
  C5, as stated, fails. Every frame first adds the automatic rotation and then moves the
  rotation one twentieth of the way to the target. A sphere with the default options,
  unrotated, the pointer at the centre: the target is \<open>(0, 0)\<close>, yet the rotation leaves
  zero and grows from frame to frame.
\<close>

theorem pointer_centre_drifts:
  "(case stage demo_sphere of
      Some (cam, r, SphereScene sp inner) \<Rightarrow> vx (rotation sp) = 0 \<and> vy (rotation sp) = 0
    | _ \<Rightarrow> False)
   \<and> mouse demo_sphere = (0, 0)
   \<and> (case frames 1 demo_sphere demo_host of
        Inl e \<Rightarrow> False
      | Inr (this', h') \<Rightarrow>
         (case stage this' of
            Some (cam, r, SphereScene sp inner) \<Rightarrow>
              targetRotation this' = (0, 0)
              \<and> vx (rotation sp) = 0.000475 \<and> vy (rotation sp) = 0.00095
          | _ \<Rightarrow> False))
   \<and> (case frames 2 demo_sphere demo_host of
        Inl e \<Rightarrow> False
      | Inr (this', h') \<Rightarrow>
         (case stage this' of
            Some (cam, r, SphereScene sp inner) \<Rightarrow>
              targetRotation this' = (0, 0)
              \<and> vx (rotation sp) = 0.00092625 \<and> vy (rotation sp) = 0.0018525
          | _ \<Rightarrow> False))"
  by (simp add: numeral_2_eq_2 demo_sphere_def on_stage_def blank_def build_defs demo_host_def
        host_ops animate_def animate_sphere_def target_of_def ease_def turn_def render_def Let_def)

text \<open>
  C5, amended. With the pointer held at the centre the target rotation is \<open>(0, 0)\<close> at
  every frame, and a frame takes a rotation component \<open>x\<close> to \<open>0.95 (x + d)\<close>, where \<open>d\<close>
  is the automatic rotation of that axis. So after \<open>n\<close> frames the distance of the
  rotation from the fixed point \<open>19 d\<close> has shrunk by the factor \<open>0.95 ^ n\<close>: the
  rotation converges, with monotonically decreasing distance, to
  \<open>(9.5 rotationSpeed, 19 rotationSpeed)\<close> for the sphere and to \<open>(0.057, 0.095)\<close> for
  the torus knot, and to \<open>(0, 0)\<close> only where the automatic rotation is zero.
  (Arithmetic is exact.)
\<close>

theorem pointer_centre_settles:
  assumes "mouse this = (0, 0)" and "frames n this h = Inr (this', h')"
  shows "(\<forall>cam r sp inner s.
            stage this = Some (cam, r, SphereScene sp inner)
            \<longrightarrow> to_number (options this ''rotationSpeed'') = Inr s
            \<longrightarrow> (\<exists>r' sp' inner'.
                   stage this' = Some (cam, r', SphereScene sp' inner')
                   \<and> (n = 0 \<or> targetRotation this' = (0, 0))
                   \<and> vx (rotation sp') - 9.5 * s = 0.95 ^ n * (vx (rotation sp) - 9.5 * s)
                   \<and> vy (rotation sp') - 19 * s = 0.95 ^ n * (vy (rotation sp) - 19 * s)))
         \<and> (\<forall>cam r m.
            stage this = Some (cam, r, KnotScene m)
            \<longrightarrow> (\<exists>r' m'.
                   stage this' = Some (cam, r', KnotScene m')
                   \<and> (n = 0 \<or> targetRotation this' = (0, 0))
                   \<and> vx (rotation m') - 0.057 = 0.95 ^ n * (vx (rotation m) - 0.057)
                   \<and> vy (rotation m') - 0.095 = 0.95 ^ n * (vy (rotation m) - 0.095)))"
  using frames_sphere [OF assms(2) _ assms(1)] frames_knot [OF assms(2) _ assms(1)]
  by blast

theorem pointer_centre_settles_witness:
  "(case frames 3 demo_sphere demo_host of
      Inl e \<Rightarrow> False
    | Inr (this', h') \<Rightarrow>
       (case stage this' of
          Some (cam, r, SphereScene sp inner) \<Rightarrow>
            targetRotation this' = (0, 0)
            \<and> vx (rotation sp) - 0.0095 = 0.95 ^ 3 * (0 - 0.0095)
            \<and> vy (rotation sp) - 0.019 = 0.95 ^ 3 * (0 - 0.019)
        | _ \<Rightarrow> False))
   \<and> (case frames 3 demo_knot demo_host of
        Inl e \<Rightarrow> False
      | Inr (this', h') \<Rightarrow>
         (case stage this' of
            Some (cam, r, KnotScene m) \<Rightarrow>
              targetRotation this' = (0, 0)
              \<and> vx (rotation m) - 0.057 = 0.95 ^ 3 * (0 - 0.057)
              \<and> vy (rotation m) - 0.095 = 0.95 ^ 3 * (0 - 0.095)
          | _ \<Rightarrow> False))"
proof -
  obtain sp inner where
    s: "stage demo_sphere = Some (demo_camera 50 4, demo_renderer, SphereScene sp inner)"
    and z: "vx (rotation sp) = 0" "vy (rotation sp) = 0"
    by (simp add: demo_sphere_def on_stage_def build_defs)
  have o: "options demo_sphere = this_options AnimatedSphere Map.empty"
    and ms: "mouse demo_sphere = (0, 0)"
    by (simp_all add: demo_sphere_def on_stage_def build_defs blank_def)
  have n: "to_number (options demo_sphere ''rotationSpeed'') = Inr 0.001"
    by (simp add: o js_or_def)
  from frames_total [OF s, of AnimatedSphere 3 demo_host] obtain this1 h1 where
    f: "frames 3 demo_sphere demo_host = Inr (this1, h1)"
    by (auto simp: fits_def o this_options_keys)
  from pointer_centre_settles [OF ms f, THEN conjunct1, rule_format, OF s n] z
  obtain r1 sp1 inner1 where
    "stage this1 = Some (demo_camera 50 4, r1, SphereScene sp1 inner1)"
    "targetRotation this1 = (0, 0)"
    "vx (rotation sp1) - 0.0095 = 0.95 ^ 3 * (0 - 0.0095)"
    "vy (rotation sp1) - 0.019 = 0.95 ^ 3 * (0 - 0.019)"
    by auto
  with f have A: "case frames 3 demo_sphere demo_host of
      Inl e \<Rightarrow> False
    | Inr (this', h') \<Rightarrow>
       (case stage this' of
          Some (cam, r, SphereScene sp inner) \<Rightarrow>
            targetRotation this' = (0, 0)
            \<and> vx (rotation sp) - 0.0095 = 0.95 ^ 3 * (0 - 0.0095)
            \<and> vy (rotation sp) - 0.019 = 0.95 ^ 3 * (0 - 0.019)
        | _ \<Rightarrow> False)"
    by simp
  obtain m where
    k: "stage demo_knot = Some (demo_camera 50 5, demo_renderer, KnotScene m)"
    and zk: "vx (rotation m) = 0" "vy (rotation m) = 0"
    by (simp add: demo_knot_def on_stage_def build_defs)
  have ok: "options demo_knot = this_options GeometricAnimation Map.empty"
    and mk: "mouse demo_knot = (0, 0)"
    by (simp_all add: demo_knot_def on_stage_def build_defs blank_def)
  from frames_total [OF k, of GeometricAnimation 3 demo_host] obtain this2 h2 where
    g: "frames 3 demo_knot demo_host = Inr (this2, h2)"
    by (auto simp: fits_def ok this_options_keys)
  from pointer_centre_settles [OF mk g, THEN conjunct2, rule_format, OF k] zk
  obtain r2 m2 where
    "stage this2 = Some (demo_camera 50 5, r2, KnotScene m2)"
    "targetRotation this2 = (0, 0)"
    "vx (rotation m2) - 0.057 = 0.95 ^ 3 * (0 - 0.057)"
    "vy (rotation m2) - 0.095 = 0.95 ^ 3 * (0 - 0.095)"
    by auto
  with g have B: "case frames 3 demo_knot demo_host of
        Inl e \<Rightarrow> False
      | Inr (this', h') \<Rightarrow>
         (case stage this' of
            Some (cam, r, KnotScene m) \<Rightarrow>
              targetRotation this' = (0, 0)
              \<and> vx (rotation m) - 0.057 = 0.95 ^ 3 * (0 - 0.057)
              \<and> vy (rotation m) - 0.095 = 0.95 ^ 3 * (0 - 0.095)
          | _ \<Rightarrow> False)"
    by simp
  from A B show ?thesis by (rule conjI)
qed

section \<open>Particles of the flow pipeline\<close>




section \<open>Resizing\<close>



section \<open>Options\<close>

text \<open>
  C8. For every effect: an option that is left out takes the default its constructor
  writes down (and a key without a default stays undefined); and option keys that the
  class does not recognise are stored but never read: whatever the page then does with
  the effect, every outcome (errors, scene objects, camera, renderer, drawn frames,
  document, listeners) is the same with and without them.
\<close>

theorem options_defaults_and_extras:
  "(opts k = None \<longrightarrow> this_options e opts k = map_of (defaults e) k)
   \<and> (dom extra \<inter> recognised e = {} \<longrightarrow>
        this_options e (opts ++ extra) = this_options e opts ++ extra
        \<and> observe (launch e c (opts ++ extra) h env cs) = observe (launch e c opts h env cs))"
  using this_options_default [of opts k e] this_options_extra [of extra e opts]
    launch_extra [of extra e c opts h env cs]
  by (simp add: observe_lift_extra)


theorem options_defaults_and_extras_witness:
  "this_options AnimatedSphere [''radius'' \<mapsto> Num 2] ''color'' = Some (Num 0x1a1a1a)
   \<and> dom [''glow'' \<mapsto> Bool True] \<inter> recognised AnimatedSphere = {}
   \<and> this_options AnimatedSphere ([''radius'' \<mapsto> Num 2] ++ [''glow'' \<mapsto> Bool True])
       = this_options AnimatedSphere [''radius'' \<mapsto> Num 2] ++ [''glow'' \<mapsto> Bool True]
   \<and> observe (launch AnimatedSphere (Element 7) ([''radius'' \<mapsto> Num 2] ++ [''glow'' \<mapsto> Bool True])
         demo_host id [(id, Animate), (id, OnResize), (id, Destroy)])
       = observe (launch AnimatedSphere (Element 7) [''radius'' \<mapsto> Num 2]
         demo_host id [(id, Animate), (id, OnResize), (id, Destroy)])
   \<and> (case launch AnimatedSphere (Element 7) [''radius'' \<mapsto> Num 2]
         demo_host id [(id, Animate), (id, OnResize), (id, Destroy)] of
        Inl e \<Rightarrow> False
      | Inr (this, h) \<Rightarrow> childNodes h 7 = [] \<and> options this ''radius'' = Some (Num 2))"
proof -
  have n: "[''radius'' \<mapsto> Num 2] ''color'' = None"
    by simp
  have d: "dom [''glow'' \<mapsto> Bool True] \<inter> recognised AnimatedSphere = {}"
    by (simp add: recognised_def)
  have l: "case launch AnimatedSphere (Element 7) [''radius'' \<mapsto> Num 2]
         demo_host id [(id, Animate), (id, OnResize), (id, Destroy)] of
        Inl e \<Rightarrow> False
      | Inr (this, h) \<Rightarrow> childNodes h 7 = [] \<and> options this ''radius'' = Some (Num 2)"
    by (simp add: launch_def constructor_def blank_def init_defs mount_def demo_host_def host_ops
          build_defs animate_def animate_sphere_def target_of_def ease_def turn_def render_def
          onResize_def destroy_def Let_def)
  from options_defaults_and_extras [of "[''radius'' \<mapsto> Num 2]" "''color''" AnimatedSphere
      "[''glow'' \<mapsto> Bool True]" "Element 7" demo_host id
      "[(id, Animate), (id, OnResize), (id, Destroy)]"] n d l
  show ?thesis
    by simp
qed

section \<open>The pixel ratio\<close>

text \<open>
  C9. For every effect, when \<open>init\<close> has run, the renderer's pixel ratio is the minimum
  of the window's device pixel ratio and 2, hence never above 2.
\<close>

theorem init_pixel_ratio:
  assumes "init this h = Inr (this', h')"
  shows "\<exists>cam r sc. stage this' = Some (cam, r, sc)
           \<and> pixelRatio r = min (devicePixelRatio h) 2 \<and> pixelRatio r \<le> 2"
proof -
  from assms obtain el where el: "container this = Some el"
    by (auto simp: init_def split: option.splits)
  from assms el obtain fv z cam r h1 sc h2 where m: "mount fv z el h = Inr (cam, r, h1)"
     and a: "animate (this\<lparr>stage := Some (cam, r, sc)\<rparr>) h2 = Inr (this', h')"
    by (auto simp: init_defs split: effect.splits sum.splits prod.splits)
  from animate_stage [OF a, of cam r sc] obtain sc' where
    "stage this' = Some (cam, render sc' cam r, sc')" by auto
  moreover have "pixelRatio (render sc' cam r) = min (devicePixelRatio h) 2"
    using mount_result [OF m] by (simp add: render_def)
  ultimately show ?thesis by auto
qed

theorem init_pixel_ratio_witness:
  "(case init demo_network demo_host of
      Inl e \<Rightarrow> False
    | Inr (this', h') \<Rightarrow>
       (case stage this' of None \<Rightarrow> False | Some (cam, r, sc) \<Rightarrow> pixelRatio r = 2))
   \<and> devicePixelRatio demo_host = 3"
proof -
  obtain this' h' where i: "init demo_network demo_host = Inr (this', h')"
    using init_total [OF demo_network_facts(1) demo_host_facts(1) demo_network_facts(3)]
    by blast
  from init_pixel_ratio [OF i] obtain cam r sc where
    "stage this' = Some (cam, r, sc)" "pixelRatio r = min (devicePixelRatio demo_host) 2"
    by blast
  moreover have "devicePixelRatio demo_host = 3"
    by (simp add: demo_host_def)
  ultimately show ?thesis
    by (simp add: i)
qed

section \<open>Nodes of the network stay in their box\<close>

text \<open>
  C10. In the network, if every node starts with each coordinate strictly between \<open>-2\<close>
  and \<open>2\<close> and each velocity component below \<open>0.005\<close> in absolute value, then after any
  number of frames every coordinate of every node is below \<open>2.005\<close> in absolute value.
  (Arithmetic is exact, as everywhere in this development.)
\<close>

theorem nodes_stay_bounded:
  assumes "stage this = Some (cam, r, NetworkScene ns gy m ls ly)"
    and "\<forall>nd \<in> set ns.
           - 2 < vx (position nd) \<and> vx (position nd) < 2
           \<and> - 2 < vy (position nd) \<and> vy (position nd) < 2
           \<and> - 2 < vz (position nd) \<and> vz (position nd) < 2
           \<and> \<bar>vx (velocity nd)\<bar> < 0.005 \<and> \<bar>vy (velocity nd)\<bar> < 0.005
           \<and> \<bar>vz (velocity nd)\<bar> < 0.005"
    and "frames n this h = Inr (this', h')"
  shows "\<exists>r' ns' gy' ls' ly'.
           stage this' = Some (cam, r', NetworkScene ns' gy' m ls' ly')
           \<and> length ns' = length ns
           \<and> (\<forall>nd \<in> set ns'. \<bar>vx (position nd)\<bar> < 2.005 \<and> \<bar>vy (position nd)\<bar> < 2.005
                                \<and> \<bar>vz (position nd)\<bar> < 2.005)"
proof -
  have "\<forall>nd \<in> set ns. calm_node nd"
    using assms(2) by (simp add: calm_node_def calm_start)
  from frames_calm [OF assms(3) assms(1) this] obtain r' ns' gy' ls' ly' where
    s: "stage this' = Some (cam, r', NetworkScene ns' gy' m ls' ly')" "length ns' = length ns"
    and c: "\<forall>nd \<in> set ns'. calm_node nd"
    by blast
  from c have "\<forall>nd \<in> set ns'. \<bar>vx (position nd)\<bar> < 2.005 \<and> \<bar>vy (position nd)\<bar> < 2.005
                                \<and> \<bar>vz (position nd)\<bar> < 2.005"
    using calm_node_bound by blast
  with s show ?thesis by blast
qed

theorem nodes_stay_bounded_witness:
  "case frames 3 demo_bouncer demo_host of
     Inl e \<Rightarrow> False
   | Inr (this', h') \<Rightarrow>
      (case stage this' of
         Some (cam, r, NetworkScene ns gy m ls ly) \<Rightarrow>
           map (\<lambda>nd. (vx (position nd), vz (position nd))) ns = [(1.995, - 1.995)]
           \<and> list_all (\<lambda>nd. \<bar>vx (position nd)\<bar> < 2.005 \<and> \<bar>vz (position nd)\<bar> < 2.005) ns
       | _ \<Rightarrow> False)"
proof -
  let ?ns = "[node_at (Vector3 1.999 0 (- 1.999)) (Vector3 0.004 0 (- 0.004))]"
  let ?m = "line_material (Some (Num 0x8b5cf6)) 0.3"
  have s: "stage demo_bouncer = Some (demo_camera 60 5, demo_renderer, NetworkScene ?ns 0 ?m [] 0)"
    by (simp add: demo_bouncer_def on_stage_def)
  have o: "options demo_bouncer = this_options NeuralNetwork [''nodeCount'' \<mapsto> Num 2]"
    by (simp add: demo_bouncer_def on_stage_def demo_network_facts)
  have b: "\<forall>nd \<in> set ?ns.
           - 2 < vx (position nd) \<and> vx (position nd) < 2
           \<and> - 2 < vy (position nd) \<and> vy (position nd) < 2
           \<and> - 2 < vz (position nd) \<and> vz (position nd) < 2
           \<and> \<bar>vx (velocity nd)\<bar> < 0.005 \<and> \<bar>vy (velocity nd)\<bar> < 0.005
           \<and> \<bar>vz (velocity nd)\<bar> < 0.005"
    by (simp add: node_at_def Vector3_def)
  from frames_total [OF s, of NeuralNetwork 3 demo_host] obtain this' h' where
    f: "frames 3 demo_bouncer demo_host = Inr (this', h')"
    by (auto simp: fits_def o this_options_keys)
  from nodes_stay_bounded [OF s b f] obtain r' ns' gy' ls' ly' where
    t: "stage this' = Some (demo_camera 60 5, r', NetworkScene ns' gy' ?m ls' ly')"
    and c: "\<forall>nd \<in> set ns'. \<bar>vx (position nd)\<bar> < 2.005 \<and> \<bar>vz (position nd)\<bar> < 2.005"
    by blast
  have "case frames 3 demo_bouncer demo_host of
          Inl e \<Rightarrow> False
        | Inr (this', h') \<Rightarrow>
           (case stage this' of
              Some (cam, r, NetworkScene ns gy m ls ly) \<Rightarrow>
                map (\<lambda>nd. (vx (position nd), vz (position nd))) ns = [(1.995, - 1.995)]
            | _ \<Rightarrow> False)"
    by (simp add: numeral_3_eq_3 demo_bouncer_def on_stage_def node_at_def demo_network_def
          blank_def demo_host_def host_ops Vector3_def js_or_def animate_def animate_network_def
          move_node_def bounce_def render_def Let_def)
  with f t c show ?thesis
    by (simp add: list_all_iff)
qed

end
